theory Spec2Isabelle
  imports Complex_Main "HOL-Library.AList"
begin

section \<open>Soapbox telematics: the sensor and statistics core (\<open>src/sensors.py\<close>)\<close>

text \<open>
  The embedding follows \<open>src/sensors.py\<close> class by class. Conventions:
  \<^item> a Python \<open>float\<close> is a \<^typ>\<open>real\<close>. In the classes below arithmetic is exact;
    this serves the properties that do not depend on computed amounts. The methods
    whose computed amounts matter are embedded again with binary64 rounding written out
    (section on binary64 arithmetic). Infinities and NaN are outside the model;
  \<^item> every \<open>time.time()\<close> of the source is one \<open>time_time\<close> of the model: the
    world holds the sequence of readings the clock will give and the number of readings
    taken so far;
  \<^item> the statistics file lives in the world's file store; \<open>json.dump\<close> writes a JSON
    object, modelled as an association list from key to number;
  \<^item> an exception is a value of type \<open>exn\<close>; a \<open>try/except Exception\<close> is a case
    distinction on a result of type \<open>exn + 'a\<close>;
  \<^item> a \<open>with self.lock\<close> block makes the body atomic; the model runs one call at a
    time, so locks do not appear. \<open>print\<close> is not modelled.
\<close>

subsection \<open>Environment: exceptions, clock, files\<close>

datatype exn = ZeroDivisionError | KeyError string | Exception string

text \<open>
  What a path holds: a JSON object with numeric values, or content on which
  \<open>open\<close>, \<open>json.load\<close> or \<open>data.get\<close> raises. A JSON object with values of another
  type is outside the model.
\<close>

datatype file_content = Unreadable | Json_object "(string \<times> real) list"

text \<open>
  What happens when \<open>_save_data\<close> touches the disk at a path: everything works,
  \<open>os.makedirs\<close> raises, or \<open>open\<close> raises (\<open>json.dump\<close> of five floats does not).
\<close>

datatype io_outcome = Io_ok | Makedirs_raises | Open_raises

record world =
  clock :: "nat \<Rightarrow> real"
  ticks :: nat
  files :: "string \<rightharpoonup> file_content"
  disk :: "string \<Rightarrow> io_outcome"

definition time_time :: "world \<Rightarrow> real \<times> world" where
  "time_time w = (clock w (ticks w), w\<lparr>ticks := Suc (ticks w)\<rparr>)"

text \<open>\<open>data.get(key, default)\<close> on a JSON object.\<close>

definition dict_get :: "(string \<times> real) list \<Rightarrow> string \<Rightarrow> real \<Rightarrow> real" where
  "dict_get d k dflt = (case map_of d k of None \<Rightarrow> dflt | Some v \<Rightarrow> v)"

subsection \<open>class StatisticsTracker\<close>

record statistics_tracker =
  data_file :: string
  max_speed_kmh :: real
  total_distance_km :: real
  max_cornering_force_g :: real
  max_braking_force_g :: real
  session_start_time :: real
  last_update_time :: real

text \<open>
  \<open>_load_data\<close>: when the file exists, open and parse it and take the four fields
  with \<open>data.get(key, 0.0)\<close>; a file that cannot be read or parsed raises inside the
  \<open>try\<close>, and the handler leaves the tracker as it is.
\<close>

definition load_data :: "statistics_tracker \<Rightarrow> world \<Rightarrow> statistics_tracker" where
  "load_data trk w =
     (case files w (data_file trk) of
        None \<Rightarrow> trk
      | Some Unreadable \<Rightarrow> trk
      | Some (Json_object d) \<Rightarrow>
          trk\<lparr>max_speed_kmh := dict_get d ''max_speed_kmh'' 0,
              total_distance_km := dict_get d ''total_distance_km'' 0,
              max_cornering_force_g := dict_get d ''max_cornering_force_g'' 0,
              max_braking_force_g := dict_get d ''max_braking_force_g'' 0\<rparr>)"

text \<open>
  \<open>_save_data\<close>: \<open>os.makedirs\<close>, then the dictionary (which reads the clock), then
  \<open>open\<close> and \<open>json.dump\<close>. An exception of \<open>os.makedirs\<close> or \<open>open\<close> is caught and
  nothing is written.
\<close>

definition save_data :: "statistics_tracker \<Rightarrow> world \<Rightarrow> world" where
  "save_data trk w =
     (case disk w (data_file trk) of
        Makedirs_raises \<Rightarrow> w
      | Open_raises \<Rightarrow> snd (time_time w)
      | Io_ok \<Rightarrow>
          (let (t, w1) = time_time w;
               data = [(''max_speed_kmh'', max_speed_kmh trk),
                       (''total_distance_km'', total_distance_km trk),
                       (''max_cornering_force_g'', max_cornering_force_g trk),
                       (''max_braking_force_g'', max_braking_force_g trk),
                       (''last_updated'', t)]
           in w1\<lparr>files := (files w1)(data_file trk \<mapsto> Json_object data)\<rparr>))"

definition StatisticsTracker_init :: "string \<Rightarrow> world \<Rightarrow> statistics_tracker \<times> world" where
  "StatisticsTracker_init path w =
     (let (t1, w1) = time_time w;
          (t2, w2) = time_time w1;
          trk = \<lparr>data_file = path, max_speed_kmh = 0, total_distance_km = 0,
                 max_cornering_force_g = 0, max_braking_force_g = 0,
                 session_start_time = t1, last_update_time = t2\<rparr>
      in (load_data trk w2, w2))"

definition update_speed ::
  "real \<Rightarrow> statistics_tracker \<Rightarrow> world \<Rightarrow> statistics_tracker \<times> world" where
  "update_speed speed trk w =
     (if speed > max_speed_kmh trk
      then (let trk1 = trk\<lparr>max_speed_kmh := speed\<rparr> in (trk1, save_data trk1 w))
      else (trk, w))"

definition update_distance ::
  "real \<Rightarrow> statistics_tracker \<Rightarrow> world \<Rightarrow> statistics_tracker \<times> world" where
  "update_distance current_speed_kmh trk w =
     (let (current_time, w1) = time_time w;
          time_diff = current_time - last_update_time trk;
          (trk1, w2) =
            (if time_diff > 0 \<and> current_speed_kmh > 0
             then (let distance_km = (current_speed_kmh * time_diff) / 3600;
                       trk' = trk\<lparr>total_distance_km := total_distance_km trk + distance_km\<rparr>
                   in (trk', save_data trk' w1))
             else (trk, w1))
      in (trk1\<lparr>last_update_time := current_time\<rparr>, w2))"

definition update_acceleration ::
  "real \<Rightarrow> real \<Rightarrow> real \<Rightarrow> statistics_tracker \<Rightarrow> world \<Rightarrow> statistics_tracker \<times> world" where
  "update_acceleration ax_g ay_g az_g trk w =
     (let lateral_force = sqrt (ax_g\<^sup>2 + ay_g\<^sup>2);
          (trk1, w1) =
            (if lateral_force > max_cornering_force_g trk
             then (let trk' = trk\<lparr>max_cornering_force_g := lateral_force\<rparr>
                   in (trk', save_data trk' w))
             else (trk, w));
          braking_force = \<bar>min 0 (az_g - 1)\<bar>
      in (if braking_force > max_braking_force_g trk1
          then (let trk' = trk1\<lparr>max_braking_force_g := braking_force\<rparr>
                in (trk', save_data trk' w1))
          else (trk1, w1)))"

text \<open>The dictionary \<open>get_statistics\<close> returns, in the order of the source.\<close>

definition get_statistics ::
  "statistics_tracker \<Rightarrow> world \<Rightarrow> (string \<times> real) list \<times> world" where
  "get_statistics trk w =
     (let (now, w1) = time_time w
      in ([(''max_speed_kmh'', max_speed_kmh trk),
           (''total_distance_km'', total_distance_km trk),
           (''max_cornering_force_g'', max_cornering_force_g trk),
           (''max_braking_force_g'', max_braking_force_g trk),
           (''session_duration_hours'', (now - session_start_time trk) / 3600)], w1))"

definition reset_statistics :: "statistics_tracker \<Rightarrow> world \<Rightarrow> statistics_tracker \<times> world" where
  "reset_statistics trk w =
     (let (t1, w1) = time_time w;
          (t2, w2) = time_time w1;
          trk1 = trk\<lparr>max_speed_kmh := 0, total_distance_km := 0,
                    max_cornering_force_g := 0, max_braking_force_g := 0,
                    session_start_time := t1, last_update_time := t2\<rparr>
      in (trk1, save_data trk1 w2))"

subsection \<open>class HallSensor\<close>

record hall_sensor =
  gpio_pin :: int
  wheel_circumference_m :: real
  last_pulse_time :: real
  pulse_count :: int
  speed_kmh :: real

text \<open>
  The constructor's fields. The GPIO registration and the mock thread only decide who
  calls \<open>_pulse_callback\<close>; each pulse is one call of \<open>pulse_callback\<close> below.
\<close>

definition HallSensor_init :: "int \<Rightarrow> real \<Rightarrow> hall_sensor" where
  "HallSensor_init pin circumference =
     \<lparr>gpio_pin = pin, wheel_circumference_m = circumference,
      last_pulse_time = 0, pulse_count = 0, speed_kmh = 0\<rparr>"

text \<open>Python's \<open>/\<close> on floats raises on a zero divisor.\<close>

definition py_truediv :: "real \<Rightarrow> real \<Rightarrow> exn + real" where
  "py_truediv a b = (if b = 0 then Inl ZeroDivisionError else Inr (a / b))"

definition pulse_callback :: "hall_sensor \<Rightarrow> world \<Rightarrow> exn + hall_sensor \<times> world" where
  "pulse_callback h w =
     (let (current_time, w1) = time_time w;
          body =
            (if last_pulse_time h > 0
             then (let time_diff = current_time - last_pulse_time h
                   in if time_diff > 0
                      then (case py_truediv (wheel_circumference_m h) time_diff of
                              Inl e \<Rightarrow> Inl e
                            | Inr speed_ms \<Rightarrow> Inr (h\<lparr>speed_kmh := speed_ms * 3.6\<rparr>))
                      else Inr h)
             else Inr h)
      in case body of
           Inl e \<Rightarrow> Inl e
         | Inr h1 \<Rightarrow>
             Inr (h1\<lparr>last_pulse_time := current_time, pulse_count := pulse_count h1 + 1\<rparr>, w1))"


text \<open>A run of pulses from a sensor state; an exception in one pulse ends the run.\<close>

fun pulses :: "nat \<Rightarrow> hall_sensor \<Rightarrow> world \<Rightarrow> exn + hall_sensor \<times> world" where
  "pulses 0 h w = Inr (h, w)"
| "pulses (Suc n) h w =
     (case pulse_callback h w of Inl e \<Rightarrow> Inl e | Inr (h1, w1) \<Rightarrow> pulses n h1 w1)"

subsection \<open>class SensorManager\<close>

text \<open>
  The coordinator owns the four channels and the tracker. A channel's state changes
  behind the coordinator's back (pulses, hardware), so what the coordinator sees of a
  channel is the outcome of the read it makes: \<open>Inr v\<close> when the channel's method returns
  \<open>v\<close>, \<open>Inl e\<close> when it raises \<open>e\<close>. Each accessor takes that outcome as its first
  argument, and the record holds what the coordinator itself reads and writes. The
  constructor's arguments \<open>hall_pin\<close> and \<open>wheel_circumference_m\<close> go to the hall
  channel only (\<open>HallSensor_init\<close>). The two health dictionaries keep their keys in
  insertion order.
\<close>

record sensor_manager =
  statistics :: statistics_tracker
  speed_offset :: real
  altitude_offset :: real
  temp_offset :: real
  sensor_errors :: "(string \<times> bool) list"
  last_successful_reads :: "(string \<times> real) list"
  error_timeout :: real

definition SensorManager_init :: "world \<Rightarrow> sensor_manager \<times> world" where
  "SensorManager_init w =
     (let (trk, w1) = StatisticsTracker_init ''data/statistics.json'' w;
          (t1, w2) = time_time w1;
          (t2, w3) = time_time w2;
          (t3, w4) = time_time w3;
          (t4, w5) = time_time w4
      in (\<lparr>statistics = trk, speed_offset = 0, altitude_offset = 0, temp_offset = 0,
           sensor_errors = [(''hall'', False), (''barometer'', False),
                            (''thermometer'', False), (''accelerometer'', False)],
           last_successful_reads = [(''hall'', t1), (''barometer'', t2),
                                    (''thermometer'', t3), (''accelerometer'', t4)],
           error_timeout = 5\<rparr>, w5))"

definition get_speed_kmh ::
  "exn + real \<Rightarrow> sensor_manager \<Rightarrow> world \<Rightarrow> real \<times> sensor_manager \<times> world" where
  "get_speed_kmh hall_read m w =
     (case hall_read of
        Inr raw \<Rightarrow>
          (let speed = max 0 (raw + speed_offset m);
               (t, w1) = time_time w;
               m1 = m\<lparr>last_successful_reads := AList.update ''hall'' t (last_successful_reads m)\<rparr>;
               m2 = m1\<lparr>sensor_errors := AList.update ''hall'' False (sensor_errors m1)\<rparr>;
               (trk1, w2) = update_speed speed (statistics m2) w1;
               (trk2, w3) = update_distance speed trk1 w2
           in (speed, m2\<lparr>statistics := trk2\<rparr>, w3))
      | Inl e \<Rightarrow>
          (0, m\<lparr>sensor_errors := AList.update ''hall'' True (sensor_errors m)\<rparr>, w))"

definition get_altitude_m ::
  "exn + real \<Rightarrow> sensor_manager \<Rightarrow> world \<Rightarrow> real \<times> sensor_manager \<times> world" where
  "get_altitude_m barometer_read m w =
     (case barometer_read of
        Inr raw \<Rightarrow>
          (let altitude = raw + altitude_offset m;
               (t, w1) = time_time w;
               m1 = m\<lparr>last_successful_reads :=
                        AList.update ''barometer'' t (last_successful_reads m)\<rparr>;
               m2 = m1\<lparr>sensor_errors := AList.update ''barometer'' False (sensor_errors m1)\<rparr>
           in (altitude, m2, w1))
      | Inl e \<Rightarrow>
          (0, m\<lparr>sensor_errors := AList.update ''barometer'' True (sensor_errors m)\<rparr>, w))"

definition get_temperature_c ::
  "exn + real \<Rightarrow> sensor_manager \<Rightarrow> world \<Rightarrow> real \<times> sensor_manager \<times> world" where
  "get_temperature_c thermometer_read m w =
     (case thermometer_read of
        Inr raw \<Rightarrow>
          (let temp = raw + temp_offset m;
               (t, w1) = time_time w;
               m1 = m\<lparr>last_successful_reads :=
                        AList.update ''thermometer'' t (last_successful_reads m)\<rparr>;
               m2 = m1\<lparr>sensor_errors := AList.update ''thermometer'' False (sensor_errors m1)\<rparr>
           in (temp, m2, w1))
      | Inl e \<Rightarrow>
          (25, m\<lparr>sensor_errors := AList.update ''thermometer'' True (sensor_errors m)\<rparr>, w))"

definition get_acceleration_g ::
  "exn + real \<times> real \<times> real \<Rightarrow> sensor_manager \<Rightarrow> world
     \<Rightarrow> (real \<times> real \<times> real) \<times> sensor_manager \<times> world" where
  "get_acceleration_g accelerometer_read m w =
     (case accelerometer_read of
        Inr accel \<Rightarrow>
          (let (t, w1) = time_time w;
               m1 = m\<lparr>last_successful_reads :=
                        AList.update ''accelerometer'' t (last_successful_reads m)\<rparr>;
               m2 = m1\<lparr>sensor_errors :=
                         AList.update ''accelerometer'' False (sensor_errors m1)\<rparr>;
               (trk1, w2) =
                 update_acceleration (fst accel) (fst (snd accel)) (snd (snd accel))
                   (statistics m2) w1
           in (accel, m2\<lparr>statistics := trk1\<rparr>, w2))
      | Inl e \<Rightarrow>
          ((0, 0, 1),
           m\<lparr>sensor_errors := AList.update ''accelerometer'' True (sensor_errors m)\<rparr>, w))"

record sensor_status =
  healthy :: bool
  error :: bool
  time_since_last_read :: real

text \<open>
  The loop of \<open>get_sensor_status\<close> over the keys of \<open>sensor_errors\<close>; a key missing
  from a dictionary raises \<open>KeyError\<close>.
\<close>

fun status_loop ::
  "sensor_manager \<Rightarrow> real \<Rightarrow> string list \<Rightarrow> (string \<times> sensor_status) list
     \<Rightarrow> exn + (string \<times> sensor_status) list" where
  "status_loop m current_time [] status = Inr status"
| "status_loop m current_time (sensor_name # names) status =
     (case map_of (last_successful_reads m) sensor_name of
        None \<Rightarrow> Inl (KeyError sensor_name)
      | Some last_read \<Rightarrow>
          (case map_of (sensor_errors m) sensor_name of
             None \<Rightarrow> Inl (KeyError sensor_name)
           | Some err \<Rightarrow>
               (let time_since_last = current_time - last_read;
                    is_healthy = (\<not> err \<and> time_since_last < error_timeout m)
                in status_loop m current_time names
                     (AList.update sensor_name
                        \<lparr>healthy = is_healthy, error = err,
                         time_since_last_read = time_since_last\<rparr> status))))"

definition get_sensor_status ::
  "sensor_manager \<Rightarrow> world \<Rightarrow> (exn + (string \<times> sensor_status) list) \<times> world" where
  "get_sensor_status m w =
     (let (current_time, w1) = time_time w
      in (status_loop m current_time (map fst (sensor_errors m)) [], w1))"

subsection \<open>Runs and sample states\<close>

text \<open>A sequence of \<open>update_speed\<close> calls on one tracker, in order.\<close>

fun update_speeds ::
  "real list \<Rightarrow> statistics_tracker \<Rightarrow> world \<Rightarrow> statistics_tracker \<times> world" where
  "update_speeds [] trk w = (trk, w)"
| "update_speeds (v # vs) trk w =
     (let (trk1, w1) = update_speed v trk w in update_speeds vs trk1 w1)"

text \<open>
  A world for concrete runs: the clock's \<open>n\<close>-th reading is \<open>n\<close> seconds, no file
  exists yet and the disk accepts every write.
\<close>

definition disk_ok :: "string \<Rightarrow> io_outcome" where
  "disk_ok path = Io_ok"

definition fresh_world :: world where
  "fresh_world = \<lparr>clock = real, ticks = 0, files = Map.empty, disk = disk_ok\<rparr>"

definition fresh_tracker :: statistics_tracker where
  "fresh_tracker = fst (StatisticsTracker_init ''data/statistics.json'' fresh_world)"

definition world_after_init :: world where
  "world_after_init = snd (StatisticsTracker_init ''data/statistics.json'' fresh_world)"

text \<open>A world whose clock stands still, and a tracker that has been in use.\<close>

definition still_clock :: "nat \<Rightarrow> real" where
  "still_clock n = 1000"

definition frozen_world :: world where
  "frozen_world = \<lparr>clock = still_clock, ticks = 0, files = Map.empty, disk = disk_ok\<rparr>"

definition used_tracker :: statistics_tracker where
  "used_tracker = \<lparr>data_file = ''data/statistics.json'', max_speed_kmh = 42,
     total_distance_km = 3, max_cornering_force_g = 1 / 2, max_braking_force_g = 1 / 4,
     session_start_time = 10, last_update_time = 900\<rparr>"

text \<open>A hall sensor after its first pulse at second 2, and the world after that pulse.\<close>

definition one_pulse_sensor :: hall_sensor where
  "one_pulse_sensor = \<lparr>gpio_pin = 18, wheel_circumference_m = 1, last_pulse_time = 2,
     pulse_count = 1, speed_kmh = 0\<rparr>"

definition world_after_pulse :: world where
  "world_after_pulse = \<lparr>clock = real, ticks = 3, files = Map.empty, disk = disk_ok\<rparr>"

text \<open>A freshly constructed coordinator, the world after its construction, and a later world.\<close>

definition sample_manager :: sensor_manager where
  "sample_manager = fst (SensorManager_init fresh_world)"

definition sample_world :: world where
  "sample_world = snd (SensorManager_init fresh_world)"

definition late_world :: world where
  "late_world = \<lparr>clock = real, ticks = 60, files = Map.empty, disk = disk_ok\<rparr>"

subsection \<open>Observations used by the properties\<close>

text \<open>The four fields that \<open>_save_data\<close> writes and \<open>_load_data\<close> reads back.\<close>

definition persisted_fields :: "statistics_tracker \<Rightarrow> real \<times> real \<times> real \<times> real" where
  "persisted_fields trk =
     (max_speed_kmh trk, total_distance_km trk, max_cornering_force_g trk,
      max_braking_force_g trk)"

text \<open>A new tracker constructed on the file of \<open>trk\<close>.\<close>

definition reconstruct :: "statistics_tracker \<Rightarrow> world \<Rightarrow> statistics_tracker" where
  "reconstruct trk w = fst (StatisticsTracker_init (data_file trk) w)"

text \<open>
  The state the constructor of the coordinator establishes and every accessor keeps:
  the timeout is 5.0, and each channel, like each key of \<open>sensor_errors\<close>, has an entry
  in \<open>last_successful_reads\<close>.
\<close>

definition channel_names :: "string list" where
  "channel_names = [''hall'', ''barometer'', ''thermometer'', ''accelerometer'']"

definition manager_ok :: "sensor_manager \<Rightarrow> bool" where
  "manager_ok m \<longleftrightarrow>
     error_timeout m = 5
     \<and> set channel_names \<subseteq> fst ` set (last_successful_reads m)
     \<and> fst ` set (sensor_errors m) \<subseteq> fst ` set (last_successful_reads m)"

text \<open>
  The \<open>healthy\<close> entry that \<open>get_sensor_status\<close> reports for a channel; \<open>None\<close> when
  the call raises or the channel is not in the result.
\<close>

definition channel_healthy :: "sensor_manager \<Rightarrow> world \<Rightarrow> string \<Rightarrow> bool option" where
  "channel_healthy m w name =
     (case fst (get_sensor_status m w) of
        Inl e \<Rightarrow> None
      | Inr status \<Rightarrow> map_option healthy (map_of status name))"

subsection \<open>Binary64 arithmetic\<close>

text \<open>
  A Python \<open>float\<close> is an IEEE 754 binary64 number. Each of \<open>+\<close>, \<open>-\<close>, \<open>*\<close>, \<open>/\<close>
  and \<open>math.sqrt\<close> returns the double nearest to the exact result, ties going to the even
  significand. \<open>binary64 x\<close> is that double: \<open>x\<close> rounded to a multiple of the unit in the
  last place of its binade (53 significant bits, and multiples of \<open>2 ^ - 1074\<close> below the
  smallest normal number). Signed zeros are not distinguished.
\<close>

definition round_half_even :: "real \<Rightarrow> int" where
  "round_half_even y =
     (let n = \<lfloor>y\<rfloor>; f = y - of_int n
      in if f < 1 / 2 then n else if f > 1 / 2 then n + 1 else if even n then n else n + 1)"

definition ulp_exponent :: "real \<Rightarrow> int" where
  "ulp_exponent x = max \<lfloor>log 2 \<bar>x\<bar>\<rfloor> (- 1022) - 52"

definition binary64 :: "real \<Rightarrow> real" where
  "binary64 x =
     (if x = 0 then 0
      else of_int (round_half_even (x / 2 powr of_int (ulp_exponent x)))
             * 2 powr of_int (ulp_exponent x))"

text \<open>
  The largest double. An operation whose rounded result is larger in magnitude yields an
  infinity in Python; \<open>fl\<close> gives \<open>None\<close> there, and \<open>Not_finite\<close> marks a run that is
  not followed further because the code goes on with an infinity.
\<close>

definition max_double :: real where
  "max_double = (2 - 1 / 2 ^ 52) * 2 ^ 1023"

definition fl :: "real \<Rightarrow> real option" where
  "fl x = (if \<bar>binary64 x\<bar> \<le> max_double then Some (binary64 x) else None)"

datatype 'a outcome = Returns 'a | Raises exn | Not_finite

definition finite_then :: "real option \<Rightarrow> (real \<Rightarrow> 'a outcome) \<Rightarrow> 'a outcome" where
  "finite_then r f = (case r of None \<Rightarrow> Not_finite | Some x \<Rightarrow> f x)"

text \<open>\<open>math.sqrt\<close> raises \<open>ValueError\<close> on a negative argument.\<close>

definition math_sqrt :: "real \<Rightarrow> exn + real" where
  "math_sqrt x = (if x < 0 then Inl (Exception ''ValueError'') else Inr (binary64 (sqrt x)))"

text \<open>
  \<open>x ** 2\<close> is computed by the C library's \<open>pow\<close>, which is accurate but need not
  return the double nearest to the exact square; CPython raises \<open>OverflowError\<close> when
  the result is out of range. What \<open>x ** 2\<close> evaluates to is therefore a parameter
  \<open>square\<close> of the method that uses it: \<open>Inr\<close> the double returned, \<open>Inl\<close> the exception.
  \<open>rounded_square\<close> is the \<open>**\<close> that does round the exact square to the nearest double.
\<close>

definition rounded_square :: "real \<Rightarrow> exn + real" where
  "rounded_square x =
     (case fl (x * x) of None \<Rightarrow> Inl (Exception ''OverflowError'') | Some y \<Rightarrow> Inr y)"

text \<open>
  \<open>StatisticsTracker.update_distance\<close>, \<open>StatisticsTracker.update_acceleration\<close>,
  \<open>SensorManager.calibrate_speed\<close> and \<open>SensorManager.get_speed_kmh\<close> with the
  arithmetic of the source rounded operation by operation. Comparisons, \<open>min\<close>, \<open>max\<close>
  and \<open>abs\<close> are exact on doubles. \<open>calibrate_speed\<close> has no handler: an exception of
  the read propagates. In \<open>get_speed_kmh\<close> the handler covers the whole body, also the
  two statistics updates.
\<close>

definition update_distance_b64 ::
  "real \<Rightarrow> statistics_tracker \<Rightarrow> world \<Rightarrow> (statistics_tracker \<times> world) outcome" where
  "update_distance_b64 current_speed_kmh trk w =
     (let (current_time, w1) = time_time w
      in finite_then (fl (current_time - last_update_time trk)) (\<lambda>time_diff.
           if time_diff > 0 \<and> current_speed_kmh > 0
           then finite_then (fl (current_speed_kmh * time_diff)) (\<lambda>product.
                finite_then (fl (product / 3600)) (\<lambda>distance_km.
                finite_then (fl (total_distance_km trk + distance_km)) (\<lambda>new_total.
                  let trk' = trk\<lparr>total_distance_km := new_total\<rparr>
                  in Returns (trk'\<lparr>last_update_time := current_time\<rparr>, save_data trk' w1))))
           else Returns (trk\<lparr>last_update_time := current_time\<rparr>, w1)))"

definition update_acceleration_b64 ::
  "(real \<Rightarrow> exn + real) \<Rightarrow> real \<Rightarrow> real \<Rightarrow> real \<Rightarrow> statistics_tracker \<Rightarrow> world
     \<Rightarrow> (statistics_tracker \<times> world) outcome" where
  "update_acceleration_b64 square ax_g ay_g az_g trk w =
     (case square ax_g of
        Inl e \<Rightarrow> Raises e
      | Inr ax2 \<Rightarrow>
     (case square ay_g of
        Inl e \<Rightarrow> Raises e
      | Inr ay2 \<Rightarrow>
     finite_then (fl (ax2 + ay2)) (\<lambda>sum.
     (case math_sqrt sum of
        Inl e \<Rightarrow> Raises e
      | Inr lateral_force \<Rightarrow>
          (let (trk1, w1) =
                 (if lateral_force > max_cornering_force_g trk
                  then (let trk' = trk\<lparr>max_cornering_force_g := lateral_force\<rparr>
                        in (trk', save_data trk' w))
                  else (trk, w))
           in finite_then (fl (az_g - 1)) (\<lambda>difference.
                let braking_force = \<bar>min 0 difference\<bar>
                in if braking_force > max_braking_force_g trk1
                   then (let trk' = trk1\<lparr>max_braking_force_g := braking_force\<rparr>
                         in Returns (trk', save_data trk' w1))
                   else Returns (trk1, w1)))))))"




text \<open>
  A tracker that has covered 0.1 km, and a coordinator constructed while the clock
  stands still, with the world after its construction.
\<close>

definition tenth_km_tracker :: statistics_tracker where
  "tenth_km_tracker = fresh_tracker\<lparr>total_distance_km := binary64 (1 / 10)\<rparr>"



section \<open>Properties\<close>

subsection \<open>Basic facts\<close>

lemma fresh_tracker_fields:
  "fresh_tracker = \<lparr>data_file = ''data/statistics.json'', max_speed_kmh = 0,
     total_distance_km = 0, max_cornering_force_g = 0, max_braking_force_g = 0,
     session_start_time = 0, last_update_time = 1\<rparr>"
  by (simp add: fresh_tracker_def StatisticsTracker_init_def time_time_def load_data_def
      fresh_world_def)

lemma world_after_init_fields:
  "world_after_init = \<lparr>clock = real, ticks = 2, files = Map.empty, disk = disk_ok\<rparr>"
  by (simp add: world_after_init_def StatisticsTracker_init_def time_time_def fresh_world_def
      numeral_2_eq_2)

lemma save_data_clock: "clock (save_data trk w) = clock w"
  by (simp add: save_data_def time_time_def split: io_outcome.splits)

lemma save_data_disk: "disk (save_data trk w) = disk w"
  by (simp add: save_data_def time_time_def split: io_outcome.splits)

lemma update_speed_max: "max_speed_kmh (fst (update_speed v trk w)) = max (max_speed_kmh trk) v"
  by (simp add: update_speed_def Let_def)

lemma update_speeds_max:
  "max_speed_kmh (fst (update_speeds vs trk w)) = fold max vs (max_speed_kmh trk)"
proof (induction vs arbitrary: trk w)
  case Nil
  show ?case by simp
next
  case (Cons v vs)
  obtain trk1 w1 where s: "update_speed v trk w = (trk1, w1)"
    by (cases "update_speed v trk w")
  have "max_speed_kmh trk1 = max (max_speed_kmh trk) v"
    using update_speed_max [of v trk w] s by simp
  with Cons.IH [of trk1 w1] s show ?case by (simp add: max.commute)
qed

lemma fold_max_Max: "fold max vs (a::real) = Max (set (a # vs))"
  by (rule Max.set_eq_fold [symmetric])

lemma fold_max_ge: "(a::real) \<le> fold max vs a"
  by (induction vs arbitrary: a) (auto intro: order_trans [OF max.cobounded2])

lemma update_speeds_append:
  "update_speeds (vs @ us) trk w =
     update_speeds us (fst (update_speeds vs trk w)) (snd (update_speeds vs trk w))"
  by (induction vs arbitrary: trk w) (simp_all add: split_def Let_def)

lemma update_speed_keeps:
  "total_distance_km (fst (update_speed v trk w)) = total_distance_km trk
   \<and> last_update_time (fst (update_speed v trk w)) = last_update_time trk"
  by (simp add: update_speed_def Let_def)

subsection \<open>Facts about binary64 rounding\<close>

lemma round_half_even_error: "\<bar>of_int (round_half_even y) - y\<bar> \<le> 1 / 2"
  unfolding round_half_even_def Let_def
  by (auto simp: abs_le_iff)

lemma round_half_even_between:
  "of_int n - 1 / 2 < y \<Longrightarrow> y < of_int n + 1 / 2 \<Longrightarrow> round_half_even y = n"
  unfolding round_half_even_def Let_def
  by (auto; linarith)

lemma round_half_even_of_int: "round_half_even (of_int n) = n"
  by (simp add: round_half_even_def)

lemma binary64_step:
  assumes "x \<noteq> 0"
  shows "\<bar>binary64 x - x\<bar> \<le> 2 powr of_int (ulp_exponent x) / 2"
proof -
  let ?p = "2 powr of_int (ulp_exponent x) :: real"
  have p: "0 < ?p" by simp
  have "binary64 x - x = (of_int (round_half_even (x / ?p)) - x / ?p) * ?p"
    using assms p by (simp add: binary64_def field_simps)
  then have "\<bar>binary64 x - x\<bar> = \<bar>of_int (round_half_even (x / ?p)) - x / ?p\<bar> * ?p"
    using p by (simp add: abs_mult)
  also have "\<dots> \<le> 1 / 2 * ?p"
    using round_half_even_error [of "x / ?p"] p by (intro mult_right_mono) simp_all
  finally show ?thesis by simp
qed

lemma binary64_error: "\<bar>binary64 x - x\<bar> \<le> \<bar>x\<bar> / 2 ^ 53 + 1 / 2 ^ 1075"
proof (cases "x = 0")
  case True
  then show ?thesis by (simp add: binary64_def)
next
  case False
  let ?L = "\<lfloor>log 2 \<bar>x\<bar>\<rfloor>"
  have step: "\<bar>binary64 x - x\<bar> \<le> 2 powr of_int (ulp_exponent x) / 2"
    by (rule binary64_step [OF False])
  show ?thesis
  proof (cases "- 1022 \<le> ?L")
    case True
    then have e: "ulp_exponent x = ?L - 52" by (simp add: ulp_exponent_def)
    have "2 powr of_int ?L \<le> 2 powr log 2 \<bar>x\<bar>"
      by (intro powr_mono) simp_all
    also have "\<dots> = \<bar>x\<bar>" using False by simp
    finally have le: "2 powr of_int ?L \<le> \<bar>x\<bar>" .
    have "(2::real) powr (of_int ?L - 52) = 2 powr of_int ?L / 2 powr 52"
      by (rule powr_diff)
    moreover have "(2::real) powr 52 = 2 ^ 52" by simp
    ultimately have "(2::real) powr of_int (ulp_exponent x) = 2 powr of_int ?L / 2 ^ 52"
      by (simp add: e)
    then have "2 powr of_int (ulp_exponent x) / 2 \<le> \<bar>x\<bar> / 2 ^ 53"
      using le by (simp add: field_simps)
    moreover have "0 \<le> (1::real) / 2 ^ 1075" by simp
    ultimately show ?thesis using step by linarith
  next
    case False
    then have e: "ulp_exponent x = - 1074" by (simp add: ulp_exponent_def)
    have "(2::real) powr (- 1074) = 1 / 2 powr 1074"
      by (rule powr_minus_divide)
    moreover have "(2::real) powr 1074 = 2 ^ 1074" by simp
    ultimately have "(2::real) powr of_int (- 1074) = 1 / 2 ^ 1074"
      by simp
    then have "2 powr of_int (ulp_exponent x) / 2 = (1::real) / 2 ^ 1075"
      by (simp add: e)
    moreover have "0 \<le> \<bar>x\<bar> / 2 ^ 53" by simp
    ultimately show ?thesis using step by linarith
  qed
qed

lemma two_powr_neg: "(2::real) powr (- real k) = 1 / 2 ^ k"
  by (simp add: powr_minus_divide powr_realpow)

lemma binary64_eval_neg:
  assumes lo: "1 / 2 ^ k \<le> \<bar>x\<bar>" and hi: "\<bar>x\<bar> < 2 / 2 ^ k" and k: "k \<le> 1022"
  shows "binary64 x = of_int (round_half_even (x * 2 ^ (k + 52))) / 2 ^ (k + 52)"
proof -
  have "0 < (1::real) / 2 ^ k" by simp
  with lo have pos: "0 < \<bar>x\<bar>" by linarith
  then have nz: "x \<noteq> 0" by simp
  have a: "(2::real) powr of_int (- int k) = 1 / 2 ^ k"
    using two_powr_neg [of k] by simp
  have "(2::real) powr (of_int (- int k) + 1) = 2 powr of_int (- int k) * 2 powr 1"
    by (rule powr_add)
  then have b: "(2::real) powr (of_int (- int k) + 1) = 2 / 2 ^ k"
    using a by simp
  have "\<lfloor>log 2 \<bar>x\<bar>\<rfloor> = - int k"
    using floor_log_eq_powr_iff [of "\<bar>x\<bar>" 2 "- int k"] pos lo hi a b by simp
  then have e: "ulp_exponent x = - int (k + 52)"
    using k by (simp add: ulp_exponent_def)
  have p: "(2::real) powr of_int (ulp_exponent x) = 1 / 2 ^ (k + 52)"
    using two_powr_neg [of "k + 52"] by (simp add: e)
  show ?thesis
    using nz by (simp add: binary64_def p)
qed

lemma binary64_eval_pos:
  assumes lo: "2 ^ k \<le> \<bar>x\<bar>" and hi: "\<bar>x\<bar> < 2 * 2 ^ k" and k: "k \<le> 52"
  shows "binary64 x = of_int (round_half_even (x * 2 ^ (52 - k))) / 2 ^ (52 - k)"
proof -
  have "0 < (2::real) ^ k" by simp
  with lo have pos: "0 < \<bar>x\<bar>" by linarith
  then have nz: "x \<noteq> 0" by simp
  have a: "(2::real) powr of_int (int k) = 2 ^ k"
    by (simp add: powr_realpow)
  have "(2::real) powr (of_int (int k) + 1) = 2 powr of_int (int k) * 2 powr 1"
    by (rule powr_add)
  then have b: "(2::real) powr (of_int (int k) + 1) = 2 * 2 ^ k"
    using a by simp
  have "\<lfloor>log 2 \<bar>x\<bar>\<rfloor> = int k"
    using floor_log_eq_powr_iff [of "\<bar>x\<bar>" 2 "int k"] pos lo hi a b by simp
  then have e: "ulp_exponent x = - int (52 - k)"
    using k by (simp add: ulp_exponent_def)
  have p: "(2::real) powr of_int (ulp_exponent x) = 1 / 2 ^ (52 - k)"
    using two_powr_neg [of "52 - k"] by (simp add: e)
  show ?thesis
    using nz by (simp add: binary64_def p)
qed

lemma max_double_ge: "\<bar>y\<bar> \<le> 2 \<Longrightarrow> \<bar>y\<bar> \<le> max_double"
  by (simp add: max_double_def)

lemma b64_0_1: "binary64 (1 / 10) = 3602879701896397 / 2 ^ 55"
  using binary64_eval_neg [of 4 "1 / 10"] by (simp add: round_half_even_def)

lemma b64_0_95: "binary64 (95 / 100) = 4278419646001971 / 2 ^ 52"
  using binary64_eval_neg [of 1 "95 / 100"] by (simp add: round_half_even_def)

lemma b64_36: "binary64 36 = 36"
  using binary64_eval_pos [of 5 36] by (simp add: round_half_even_def)

lemma fl_finite: "\<bar>x\<bar> \<le> 2 ^ 1023 \<Longrightarrow> fl x = Some (binary64 x)"
proof -
  assume a: "\<bar>x\<bar> \<le> 2 ^ 1023"
  have "\<bar>binary64 x\<bar> \<le> \<bar>x\<bar> + \<bar>binary64 x - x\<bar>" by linarith
  also have "\<dots> \<le> \<bar>x\<bar> + (\<bar>x\<bar> / 2 ^ 53 + 1 / 2 ^ 1075)"
    using binary64_error [of x] by linarith
  also have "\<dots> \<le> 2 ^ 1023 + (2 ^ 1023 / 2 ^ 53 + 1 / 2 ^ 1075)"
    using a by (intro add_mono divide_right_mono) simp_all
  also have "\<dots> \<le> max_double"
    by (simp add: max_double_def)
  finally show ?thesis by (simp add: fl_def)
qed

lemma fl_Some: "fl x = Some y \<Longrightarrow> y = binary64 x"
  by (simp add: fl_def split: if_splits)

lemma fl_small: "\<bar>binary64 x\<bar> \<le> 2 \<Longrightarrow> fl x = Some (binary64 x)"
  using max_double_ge [of "binary64 x"] by (simp add: fl_def)

lemma b64_1: "binary64 1 = 1"
  using binary64_eval_pos [of 0 1] by (simp add: round_half_even_def)

lemma b64_0_01: "binary64 (1 / 100) = 5764607523034235 / 2 ^ 59"
  using binary64_eval_neg [of 7 "1 / 100"] by (simp add: round_half_even_def)

lemma b64_0_11: "binary64 (3602879701896397 / 2 ^ 55 + 5764607523034235 / 2 ^ 59)
     = 7926335344172073 / 2 ^ 56"
  using binary64_eval_neg [of 4 "3602879701896397 / 2 ^ 55 + 5764607523034235 / 2 ^ 59"]
  by (simp add: round_half_even_def)

lemma fl_1: "fl 1 = Some 1"
  using fl_small [of 1] by (simp add: b64_1)

lemma fl_36: "fl 36 = Some 36"
  using fl_finite [of 36] by (simp add: b64_36)

lemma fl_0_01: "fl (1 / 100) = Some (5764607523034235 / 2 ^ 59)"
  using fl_small [of "1 / 100"] by (simp add: b64_0_01)

lemma fl_0_11: "fl (3602879701896397 / 2 ^ 55 + 5764607523034235 / 2 ^ 59)
     = Some (7926335344172073 / 2 ^ 56)"
  using fl_small [of "3602879701896397 / 2 ^ 55 + 5764607523034235 / 2 ^ 59"]
  by (simp only: b64_0_11) simp


lemma fl_overflow:
  assumes "2 ^ 1025 \<le> \<bar>x\<bar>"
  shows "fl x = None"
proof -
  have "\<bar>x\<bar> - \<bar>binary64 x - x\<bar> \<le> \<bar>binary64 x\<bar>" by linarith
  moreover have "\<bar>binary64 x - x\<bar> \<le> \<bar>x\<bar> / 2 ^ 53 + 1 / 2 ^ 1075"
    by (rule binary64_error)
  moreover have "(2::real) ^ 1025 - 2 ^ 1025 / 2 ^ 53 \<le> \<bar>x\<bar> - \<bar>x\<bar> / 2 ^ 53"
    using assms by (simp add: field_simps)
  moreover have "max_double < 2 ^ 1025 - 2 ^ 1025 / 2 ^ 53 - 1 / 2 ^ 1075"
    by (simp add: max_double_def)
  ultimately have "max_double < \<bar>binary64 x\<bar>" by linarith
  then show ?thesis by (simp add: fl_def)
qed

subsection \<open>The coordinator contains a failed read\<close>

text \<open>
  C1. When the read of the underlying channel raises, each of the four accessors
  returns normally: the result is the fallback value (0 for speed, 0 for altitude, 25
  for temperature, (0, 0, 1) for acceleration), the channel's entry of
  \<open>sensor_errors\<close> is true afterwards, and nothing else of the coordinator or of the
  world changes.
\<close>

theorem accessors_contain_read_exception:
  "get_speed_kmh (Inl e) m w =
     (0, m\<lparr>sensor_errors := AList.update ''hall'' True (sensor_errors m)\<rparr>, w)
   \<and> get_altitude_m (Inl e) m w =
     (0, m\<lparr>sensor_errors := AList.update ''barometer'' True (sensor_errors m)\<rparr>, w)
   \<and> get_temperature_c (Inl e) m w =
     (25, m\<lparr>sensor_errors := AList.update ''thermometer'' True (sensor_errors m)\<rparr>, w)
   \<and> get_acceleration_g (Inl e) m w =
     ((0, 0, 1), m\<lparr>sensor_errors := AList.update ''accelerometer'' True (sensor_errors m)\<rparr>, w)
   \<and> map_of (sensor_errors (fst (snd (get_speed_kmh (Inl e) m w)))) ''hall'' = Some True
   \<and> map_of (sensor_errors (fst (snd (get_altitude_m (Inl e) m w)))) ''barometer'' = Some True
   \<and> map_of (sensor_errors (fst (snd (get_temperature_c (Inl e) m w)))) ''thermometer''
        = Some True
   \<and> map_of (sensor_errors (fst (snd (get_acceleration_g (Inl e) m w)))) ''accelerometer''
        = Some True"
  by (simp add: get_speed_kmh_def get_altitude_m_def get_temperature_c_def
      get_acceleration_g_def AList.update_conv')

subsection \<open>Maximum speed\<close>

text \<open>
  C2, as stated: after any sequence of \<open>update_speed\<close> calls on a fresh tracker, the
  stored maximum is the largest value passed in. It fails for a sequence of negative
  speeds: the stored maximum starts at 0 and a value below it is never stored.
\<close>

theorem max_speed_negative_input_counterexample:
  "max_speed_kmh (fst (update_speeds [- 1] fresh_tracker world_after_init)) \<noteq> Max (set [- 1])"
  by (simp add: update_speed_def fresh_tracker_fields)

text \<open>
  C2, amended. On a tracker whose stored maximum is 0, after a sequence of
  \<open>update_speed\<close> calls the stored maximum is the largest of 0 and the values passed
  in; it is the largest value passed in as soon as one of them is not negative; and it
  never decreases when the sequence is extended.
\<close>

theorem max_speed_is_running_maximum:
  assumes "max_speed_kmh trk = 0"
  shows "max_speed_kmh (fst (update_speeds vs trk w)) = Max (set (0 # vs))
    \<and> ((\<exists>v\<in>set vs. 0 \<le> v) \<longrightarrow> max_speed_kmh (fst (update_speeds vs trk w)) = Max (set vs))
    \<and> max_speed_kmh (fst (update_speeds vs trk w))
        \<le> max_speed_kmh (fst (update_speeds (vs @ us) trk w))"
proof (intro conjI impI)
  show m: "max_speed_kmh (fst (update_speeds vs trk w)) = Max (set (0 # vs))"
    using assms by (simp only: update_speeds_max fold_max_Max)
  show "max_speed_kmh (fst (update_speeds vs trk w))
        \<le> max_speed_kmh (fst (update_speeds (vs @ us) trk w))"
    by (simp only: update_speeds_append update_speeds_max fold_max_ge)
  assume "\<exists>v\<in>set vs. 0 \<le> v"
  then obtain v where v: "v \<in> set vs" "0 \<le> v" by blast
  then have ne: "set vs \<noteq> {}" by auto
  have "Max (set (0 # vs)) = max 0 (Max (set vs))"
    using ne by simp
  moreover have "v \<le> Max (set vs)" using v by simp
  ultimately show "max_speed_kmh (fst (update_speeds vs trk w)) = Max (set vs)"
    using m v by simp
qed

theorem max_speed_is_running_maximum_witness:
  "max_speed_kmh fresh_tracker = 0
   \<and> max_speed_kmh (fst (update_speeds [12, 30, 7] fresh_tracker world_after_init)) = 30
   \<and> (\<exists>v\<in>set [12, 30, 7 :: real]. 0 \<le> v)
   \<and> max_speed_kmh (fst (update_speeds [12, 30, 7] fresh_tracker world_after_init))
       \<le> max_speed_kmh (fst (update_speeds ([12, 30, 7] @ [45]) fresh_tracker world_after_init))"
proof -
  have z: "max_speed_kmh fresh_tracker = 0"
    by (simp add: fresh_tracker_fields)
  show ?thesis
    using z max_speed_is_running_maximum [OF z, of "[12, 30, 7]" world_after_init "[45]"]
    by simp
qed

subsection \<open>Distance\<close>

lemma float_chain_error:
  fixes p x d s T :: real
  assumes p: "\<bar>p - x\<bar> \<le> \<bar>x\<bar> / 2 ^ 53 + 1 / 2 ^ 1075"
    and d: "\<bar>d - p / 3600\<bar> \<le> \<bar>p / 3600\<bar> / 2 ^ 53 + 1 / 2 ^ 1075"
    and s: "\<bar>s - (T + d)\<bar> \<le> \<bar>T + d\<bar> / 2 ^ 53 + 1 / 2 ^ 1075"
  shows "\<bar>s - (T + x / 3600)\<bar> \<le> (\<bar>T\<bar> + \<bar>x / 3600\<bar>) / 2 ^ 50 + 1 / 2 ^ 1072"
proof -
  let ?y = "x / 3600"
  let ?q = "p / 3600"
  have "\<bar>?q - ?y\<bar> = \<bar>p - x\<bar> / 3600"
    by (simp add: diff_divide_distrib [symmetric])
  also have "\<dots> \<le> (\<bar>x\<bar> / 2 ^ 53 + 1 / 2 ^ 1075) / 3600"
    using p by (intro divide_right_mono) simp_all
  also have "\<dots> \<le> \<bar>?y\<bar> / 2 ^ 53 + 1 / 2 ^ 1075"
    by (simp add: add_divide_distrib)
  finally have qy: "\<bar>?q - ?y\<bar> \<le> \<bar>?y\<bar> / 2 ^ 53 + 1 / 2 ^ 1075" .
  have q: "\<bar>?q\<bar> \<le> \<bar>?y\<bar> + \<bar>?q - ?y\<bar>" by linarith
  have dy: "\<bar>d - ?y\<bar> \<le> \<bar>d - ?q\<bar> + \<bar>?q - ?y\<bar>" by linarith
  have td: "\<bar>T + d\<bar> \<le> \<bar>T\<bar> + \<bar>?y\<bar> + \<bar>d - ?y\<bar>" by linarith
  have fin: "\<bar>s - (T + ?y)\<bar> \<le> \<bar>s - (T + d)\<bar> + \<bar>d - ?y\<bar>" by linarith
  define A where "A = \<bar>?y\<bar>"
  define B where "B = \<bar>T\<bar>"
  define Q where "Q = \<bar>?q\<bar>"
  define E1 where "E1 = \<bar>?q - ?y\<bar>"
  define E2 where "E2 = \<bar>d - ?q\<bar>"
  define E3 where "E3 = \<bar>d - ?y\<bar>"
  define E4 where "E4 = \<bar>s - (T + d)\<bar>"
  define S where "S = \<bar>T + d\<bar>"
  define R where "R = \<bar>s - (T + ?y)\<bar>"
  have nn: "0 \<le> A" "0 \<le> B" by (simp_all add: A_def B_def)
  have f1: "E1 \<le> A / 2 ^ 53 + 1 / 2 ^ 1075" using qy by (simp add: A_def E1_def)
  have f2: "Q \<le> A + E1" using q by (simp add: A_def E1_def Q_def)
  have f3: "E2 \<le> Q / 2 ^ 53 + 1 / 2 ^ 1075" using d by (simp add: E2_def Q_def)
  have f4: "E3 \<le> E2 + E1" using dy by (simp add: E1_def E2_def E3_def)
  have f5: "S \<le> B + A + E3" using td by (simp add: S_def A_def B_def E3_def)
  have f6: "E4 \<le> S / 2 ^ 53 + 1 / 2 ^ 1075" using s by (simp add: E4_def S_def)
  have f7: "R \<le> E4 + E3" using fin by (simp add: R_def E3_def E4_def)
  have "R \<le> (B + A) / 2 ^ 50 + 1 / 2 ^ 1072"
    using nn f1 f2 f3 f4 f5 f6 f7 by (simp add: field_simps) 
  then show ?thesis by (simp add: R_def A_def B_def)
qed

lemma update_distance_b64_moving:
  assumes "fl (clock w (ticks w) - last_update_time trk) = Some time_diff"
    and "0 < time_diff" "0 < v"
    and "fl (v * time_diff) = Some product"
    and "fl (product / 3600) = Some distance_km"
    and "fl (total_distance_km trk + distance_km) = Some new_total"
  shows "update_distance_b64 v trk w =
     Returns (trk\<lparr>total_distance_km := new_total, last_update_time := clock w (ticks w)\<rparr>,
              save_data (trk\<lparr>total_distance_km := new_total\<rparr>)
                (w\<lparr>ticks := Suc (ticks w)\<rparr>))"
  using assms by (simp add: update_distance_b64_def time_time_def finite_then_def Let_def)

lemma update_distance_b64_idle:
  assumes "fl (clock w (ticks w) - last_update_time trk) = Some time_diff"
    and "\<not> (0 < time_diff \<and> 0 < v)"
  shows "update_distance_b64 v trk w =
     Returns (trk\<lparr>last_update_time := clock w (ticks w)\<rparr>, w\<lparr>ticks := Suc (ticks w)\<rparr>)"
  using assms by (auto simp add: update_distance_b64_def time_time_def finite_then_def Let_def)

lemma update_distance_b64_Returns:
  assumes "update_distance_b64 v trk w = Returns (trk', w')"
  shows "last_update_time trk' = clock w (ticks w)
    \<and> total_distance_km trk' =
        (if 0 < binary64 (clock w (ticks w) - last_update_time trk) \<and> 0 < v
         then binary64 (total_distance_km trk
                + binary64 (binary64 (v * binary64 (clock w (ticks w) - last_update_time trk))
                            / 3600))
         else total_distance_km trk)"
  using assms
  by (auto simp add: update_distance_b64_def time_time_def finite_then_def fl_def Let_def
      split: if_splits)

lemma update_distance_b64_in_range:
  assumes a: "\<bar>clock w (ticks w) - last_update_time trk\<bar> \<le> 2 ^ 1023"
    and b: "\<bar>v * binary64 (clock w (ticks w) - last_update_time trk)\<bar> \<le> 2 ^ 1023"
    and c: "\<bar>total_distance_km trk
             + binary64 (binary64 (v * binary64 (clock w (ticks w) - last_update_time trk))
                          / 3600)\<bar> \<le> 2 ^ 1023"
  shows "\<exists>trk' w'. update_distance_b64 v trk w = Returns (trk', w')"
proof -
  let ?td = "binary64 (clock w (ticks w) - last_update_time trk)"
  let ?p = "binary64 (v * ?td)"
  have e1: "fl (clock w (ticks w) - last_update_time trk) = Some ?td"
    by (rule fl_finite [OF a])
  have e2: "fl (v * ?td) = Some ?p"
    by (rule fl_finite [OF b])
  have "\<bar>?p\<bar> \<le> max_double"
    using e2 by (simp add: fl_def split: if_splits)
  then have "\<bar>?p\<bar> \<le> 3600 * 2 ^ 1023"
    by (simp add: max_double_def)
  then have "\<bar>?p / 3600\<bar> \<le> 2 ^ 1023"
    by simp
  then have e3: "fl (?p / 3600) = Some (binary64 (?p / 3600))"
    by (rule fl_finite)
  have e4: "fl (total_distance_km trk + binary64 (?p / 3600))
      = Some (binary64 (total_distance_km trk + binary64 (?p / 3600)))"
    by (rule fl_finite [OF c])
  show ?thesis
  proof (cases "0 < ?td \<and> 0 < v")
    case True
    then show ?thesis
      using update_distance_b64_moving [OF e1 _ _ e2 e3 e4] by blast
  next
    case False
    then show ?thesis
      using update_distance_b64_idle [OF e1] by blast
  qed
qed

lemma tenth_km_fields:
  "last_update_time tenth_km_tracker = 1"
  "total_distance_km tenth_km_tracker = 3602879701896397 / 2 ^ 55"
  by (simp_all add: tenth_km_tracker_def fresh_tracker_fields b64_0_1)

lemma world_after_init_clock:
  "clock world_after_init n = real n" "ticks world_after_init = 2"
  by (simp_all add: world_after_init_fields)

lemma tenth_km_run:
  "update_distance_b64 36 tenth_km_tracker world_after_init =
     Returns (tenth_km_tracker\<lparr>total_distance_km := 7926335344172073 / 2 ^ 56,
                               last_update_time := 2\<rparr>,
              save_data (tenth_km_tracker\<lparr>total_distance_km := 7926335344172073 / 2 ^ 56\<rparr>)
                (world_after_init\<lparr>ticks := 3\<rparr>))"
proof -
  have c: "clock world_after_init (ticks world_after_init) = 2"
    "last_update_time tenth_km_tracker = 1"
    "total_distance_km tenth_km_tracker = 3602879701896397 / 2 ^ 55"
    "Suc (ticks world_after_init) = 3"
    by (simp_all add: world_after_init_fields tenth_km_tracker_def fresh_tracker_fields b64_0_1)
  have e1: "fl (clock world_after_init (ticks world_after_init)
                - last_update_time tenth_km_tracker) = Some 1"
    using fl_small [of 1] by (simp add: c b64_1)
  have e2: "fl (36 * 1) = Some 36"
    using fl_small [of 36] fl_finite [of 36] by (simp add: b64_36)
  have e3: "fl (36 / 3600) = Some (5764607523034235 / 2 ^ 59)"
    using fl_small [of "1 / 100"] by (simp add: b64_0_01)
  have e4: "fl (total_distance_km tenth_km_tracker + 5764607523034235 / 2 ^ 59)
      = Some (7926335344172073 / 2 ^ 56)"
    unfolding c
    using fl_small [of "3602879701896397 / 2 ^ 55 + 5764607523034235 / 2 ^ 59"]
    by (simp only: b64_0_11) simp
  show ?thesis
    using update_distance_b64_moving [OF e1 _ _ e2 e3 e4] by (simp add: c)
qed

lemma tenth_km_idle_run:
  "update_distance_b64 0 tenth_km_tracker world_after_init =
     Returns (tenth_km_tracker\<lparr>last_update_time := 2\<rparr>, world_after_init\<lparr>ticks := 3\<rparr>)"
proof -
  have e1: "fl (clock world_after_init (ticks world_after_init)
                - last_update_time tenth_km_tracker) = Some 1"
    by (simp add: tenth_km_fields world_after_init_clock fl_1)
  show ?thesis
    using update_distance_b64_idle [OF e1, of 0]
    by (simp add: world_after_init_clock)
qed

lemma tenth_km_resumed_run:
  "update_distance_b64 36 (tenth_km_tracker\<lparr>last_update_time := 2\<rparr>)
       (world_after_init\<lparr>ticks := 3\<rparr>) =
     Returns (tenth_km_tracker\<lparr>total_distance_km := 7926335344172073 / 2 ^ 56,
                               last_update_time := 3\<rparr>,
              save_data (tenth_km_tracker\<lparr>last_update_time := 2,
                                           total_distance_km := 7926335344172073 / 2 ^ 56\<rparr>)
                (world_after_init\<lparr>ticks := 4\<rparr>))"
proof -
  let ?t = "tenth_km_tracker\<lparr>last_update_time := 2\<rparr>"
  let ?w = "world_after_init\<lparr>ticks := 3\<rparr>"
  have e1: "fl (clock ?w (ticks ?w) - last_update_time ?t) = Some 1"
    by (simp add: world_after_init_clock fl_1)
  have e2: "fl (36 * 1) = Some 36" by (simp add: fl_36)
  have e3: "fl (36 / 3600) = Some (5764607523034235 / 2 ^ 59)"
    using fl_0_01 by simp
  have e4: "fl (total_distance_km ?t + 5764607523034235 / 2 ^ 59)
      = Some (7926335344172073 / 2 ^ 56)"
    using fl_0_11 by (simp add: tenth_km_fields)
  show ?thesis
    using update_distance_b64_moving [OF e1 _ _ e2 e3 e4]
    by (simp add: world_after_init_clock)
qed

text \<open>
  C3, as stated: with speed \<open>v > 0\<close> and elapsed time \<open>\<Delta>t > 0\<close>, \<open>update_distance\<close>
  increases \<open>total_distance_km\<close> by exactly \<open>v * \<Delta>t / 3600\<close>. It fails because the sum
  is rounded: from a total of 0.1 (the double), speed 36 and one second, the stored total
  is the double 0.11, and the increase is neither the number 0.01 nor the double 0.01.
\<close>

theorem distance_increase_rounded_counterexample:
  "(0::real) < 36
   \<and> 0 < clock world_after_init (ticks world_after_init) - last_update_time tenth_km_tracker
   \<and> update_distance_b64 36 tenth_km_tracker world_after_init =
       Returns (tenth_km_tracker\<lparr>total_distance_km := 7926335344172073 / 2 ^ 56,
                                 last_update_time := 2\<rparr>,
                save_data (tenth_km_tracker\<lparr>total_distance_km := 7926335344172073 / 2 ^ 56\<rparr>)
                  (world_after_init\<lparr>ticks := 3\<rparr>))
   \<and> 7926335344172073 / 2 ^ 56 - total_distance_km tenth_km_tracker
       \<noteq> 36 * (clock world_after_init (ticks world_after_init)
                - last_update_time tenth_km_tracker) / 3600
   \<and> 7926335344172073 / 2 ^ 56 - total_distance_km tenth_km_tracker
       \<noteq> binary64 (36 * (clock world_after_init (ticks world_after_init)
                          - last_update_time tenth_km_tracker) / 3600)"
  using tenth_km_run
  by (simp add: tenth_km_fields world_after_init_clock b64_0_01)

text \<open>
  C3, amended. When \<open>update_distance\<close> is called with speed \<open>v > 0\<close> and a computed
  elapsed time \<open>\<Delta>t > 0\<close> (the rounded difference of the clock reading and the last-update
  timestamp), \<open>total_distance_km\<close> becomes the rounded sum of the old total and the rounded
  value of \<open>(v * \<Delta>t) / 3600\<close>: it increases by \<open>v * \<Delta>t / 3600\<close> up to rounding, the new
  total being within \<open>(\<bar>total\<bar> + v * \<Delta>t / 3600) / 2 ^ 50 + 1 / 2 ^ 1072\<close> of the exact
  sum. With \<open>v = 0\<close> the distance is unchanged. In every case the last-update timestamp
  becomes the current clock reading, so the next call measures its \<open>\<Delta>t\<close> from this call.
  This is stated for calls that stay within the finite doubles, which they do whenever
  the three exact intermediate results are at most \<open>2 ^ 1023\<close> in magnitude.
\<close>

theorem distance_accumulates_up_to_rounding:
  "(update_distance_b64 v trk w = Returns (trk', w') \<longrightarrow>
      last_update_time trk' = clock w (ticks w)
    \<and> (0 < v \<and> 0 < binary64 (clock w (ticks w) - last_update_time trk) \<longrightarrow>
         total_distance_km trk' =
           binary64 (total_distance_km trk
             + binary64 (binary64 (v * binary64 (clock w (ticks w) - last_update_time trk))
                         / 3600))
       \<and> \<bar>total_distance_km trk'
            - (total_distance_km trk
                + v * binary64 (clock w (ticks w) - last_update_time trk) / 3600)\<bar>
           \<le> (\<bar>total_distance_km trk\<bar>
                + \<bar>v * binary64 (clock w (ticks w) - last_update_time trk) / 3600\<bar>) / 2 ^ 50
              + 1 / 2 ^ 1072)
    \<and> (v = 0 \<longrightarrow> total_distance_km trk' = total_distance_km trk)
    \<and> (update_distance_b64 v2 trk' w' = Returns (trk2, w2) \<longrightarrow>
         last_update_time trk2 = clock w' (ticks w')
       \<and> (0 < v2 \<and> 0 < binary64 (clock w' (ticks w') - clock w (ticks w)) \<longrightarrow>
            total_distance_km trk2 =
              binary64 (total_distance_km trk'
                + binary64 (binary64 (v2 * binary64 (clock w' (ticks w') - clock w (ticks w)))
                            / 3600)))))
   \<and> (\<bar>clock w (ticks w) - last_update_time trk\<bar> \<le> 2 ^ 1023
      \<and> \<bar>v * binary64 (clock w (ticks w) - last_update_time trk)\<bar> \<le> 2 ^ 1023
      \<and> \<bar>total_distance_km trk
           + binary64 (binary64 (v * binary64 (clock w (ticks w) - last_update_time trk))
                       / 3600)\<bar> \<le> 2 ^ 1023 \<longrightarrow>
       (\<exists>trk' w'. update_distance_b64 v trk w = Returns (trk', w')))"
proof (intro conjI impI)
  assume r: "update_distance_b64 v trk w = Returns (trk', w')"
  note f = update_distance_b64_Returns [OF r]
  show t: "last_update_time trk' = clock w (ticks w)" using f by simp
  show "total_distance_km trk' = total_distance_km trk" if "v = 0"
    using f that by simp
  {
    assume "update_distance_b64 v2 trk' w' = Returns (trk2, w2)"
    note g = update_distance_b64_Returns [OF this]
    show "last_update_time trk2 = clock w' (ticks w')" using g by simp
    show "total_distance_km trk2 =
              binary64 (total_distance_km trk'
                + binary64 (binary64 (v2 * binary64 (clock w' (ticks w') - clock w (ticks w)))
                            / 3600))"
      if "0 < v2 \<and> 0 < binary64 (clock w' (ticks w') - clock w (ticks w))"
      using g that by (simp add: t)
  }
  {
    assume m: "0 < v \<and> 0 < binary64 (clock w (ticks w) - last_update_time trk)"
    let ?td = "binary64 (clock w (ticks w) - last_update_time trk)"
    show e: "total_distance_km trk' =
           binary64 (total_distance_km trk + binary64 (binary64 (v * ?td) / 3600))"
      using f m by simp
    show "\<bar>total_distance_km trk' - (total_distance_km trk + v * ?td / 3600)\<bar>
           \<le> (\<bar>total_distance_km trk\<bar> + \<bar>v * ?td / 3600\<bar>) / 2 ^ 50 + 1 / 2 ^ 1072"
      unfolding e
      by (rule float_chain_error [OF binary64_error binary64_error binary64_error])
  }
next
  assume "\<bar>clock w (ticks w) - last_update_time trk\<bar> \<le> 2 ^ 1023
      \<and> \<bar>v * binary64 (clock w (ticks w) - last_update_time trk)\<bar> \<le> 2 ^ 1023
      \<and> \<bar>total_distance_km trk
           + binary64 (binary64 (v * binary64 (clock w (ticks w) - last_update_time trk))
                       / 3600)\<bar> \<le> 2 ^ 1023"
  then show "\<exists>trk' w'. update_distance_b64 v trk w = Returns (trk', w')"
    using update_distance_b64_in_range by blast
qed

theorem distance_accumulates_up_to_rounding_witness:
  "update_distance_b64 36 tenth_km_tracker world_after_init =
       Returns (tenth_km_tracker\<lparr>total_distance_km := 7926335344172073 / 2 ^ 56,
                                 last_update_time := 2\<rparr>,
                save_data (tenth_km_tracker\<lparr>total_distance_km := 7926335344172073 / 2 ^ 56\<rparr>)
                  (world_after_init\<lparr>ticks := 3\<rparr>))
   \<and> (0::real) < 36
   \<and> 0 < binary64 (clock world_after_init (ticks world_after_init)
                     - last_update_time tenth_km_tracker)
   \<and> \<bar>7926335344172073 / 2 ^ 56 - (total_distance_km tenth_km_tracker + 36 * 1 / 3600)\<bar>
       \<le> (\<bar>total_distance_km tenth_km_tracker\<bar> + \<bar>36 * 1 / 3600\<bar>) / 2 ^ 50 + 1 / 2 ^ 1072
   \<and> update_distance_b64 0 tenth_km_tracker world_after_init =
       Returns (tenth_km_tracker\<lparr>last_update_time := 2\<rparr>, world_after_init\<lparr>ticks := 3\<rparr>)
   \<and> total_distance_km (tenth_km_tracker\<lparr>last_update_time := 2\<rparr>)
       = total_distance_km tenth_km_tracker
   \<and> update_distance_b64 36 (tenth_km_tracker\<lparr>last_update_time := 2\<rparr>)
         (world_after_init\<lparr>ticks := 3\<rparr>) =
       Returns (tenth_km_tracker\<lparr>total_distance_km := 7926335344172073 / 2 ^ 56,
                                 last_update_time := 3\<rparr>,
                save_data (tenth_km_tracker\<lparr>last_update_time := 2,
                                             total_distance_km := 7926335344172073 / 2 ^ 56\<rparr>)
                  (world_after_init\<lparr>ticks := 4\<rparr>))
   \<and> \<bar>clock world_after_init (ticks world_after_init)
        - last_update_time tenth_km_tracker\<bar> \<le> 2 ^ 1023"
proof -
  have td: "binary64 (clock world_after_init (ticks world_after_init)
                      - last_update_time tenth_km_tracker) = 1"
    by (simp add: tenth_km_fields world_after_init_clock b64_1)
  note moving = distance_accumulates_up_to_rounding
    [of 36 tenth_km_tracker world_after_init
        "tenth_km_tracker\<lparr>total_distance_km := 7926335344172073 / 2 ^ 56,
                           last_update_time := 2\<rparr>"
        "save_data (tenth_km_tracker\<lparr>total_distance_km := 7926335344172073 / 2 ^ 56\<rparr>)
           (world_after_init\<lparr>ticks := 3\<rparr>)"]
  note idle = distance_accumulates_up_to_rounding
    [of 0 tenth_km_tracker world_after_init
        "tenth_km_tracker\<lparr>last_update_time := 2\<rparr>" "world_after_init\<lparr>ticks := 3\<rparr>"
        36
        "tenth_km_tracker\<lparr>total_distance_km := 7926335344172073 / 2 ^ 56,
                           last_update_time := 3\<rparr>"
        "save_data (tenth_km_tracker\<lparr>last_update_time := 2,
                                      total_distance_km := 7926335344172073 / 2 ^ 56\<rparr>)
           (world_after_init\<lparr>ticks := 4\<rparr>)"]
  have range: "\<bar>clock world_after_init (ticks world_after_init)
        - last_update_time tenth_km_tracker\<bar> \<le> 2 ^ 1023"
    by (simp add: tenth_km_fields world_after_init_clock)
  show ?thesis
    using moving idle tenth_km_run tenth_km_idle_run tenth_km_resumed_run range
    by (simp add: tenth_km_fields world_after_init_clock b64_1)
qed

subsection \<open>Reset\<close>

text \<open>
  C4. Whatever the tracker held, after \<open>reset_statistics\<close> the dictionary returned by
  \<open>get_statistics\<close> has \<open>max_speed_kmh\<close>, \<open>total_distance_km\<close>,
  \<open>max_cornering_force_g\<close> and \<open>max_braking_force_g\<close> equal to 0, and
  \<open>session_duration_hours\<close> is the time from the reset's first clock reading to the
  reading of \<open>get_statistics\<close>, divided by 3600: it is 0 when both read the same instant.
\<close>

theorem reset_zeroes_statistics:
  "(let (trk1, w1) = reset_statistics trk w;
        stats = fst (get_statistics trk1 w1)
    in map_of stats ''max_speed_kmh'' = Some 0
     \<and> map_of stats ''total_distance_km'' = Some 0
     \<and> map_of stats ''max_cornering_force_g'' = Some 0
     \<and> map_of stats ''max_braking_force_g'' = Some 0
     \<and> map_of stats ''session_duration_hours''
          = Some ((fst (time_time w1) - fst (time_time w)) / 3600)
     \<and> (fst (time_time w1) = fst (time_time w) \<longrightarrow>
          map_of stats ''session_duration_hours'' = Some 0))"
  by (simp add: reset_statistics_def get_statistics_def time_time_def Let_def split_def)

theorem reset_zeroes_statistics_witness:
  "fst (time_time (snd (reset_statistics used_tracker frozen_world))) = fst (time_time frozen_world)
   \<and> fst (get_statistics (fst (reset_statistics used_tracker frozen_world))
                          (snd (reset_statistics used_tracker frozen_world)))
      = [(''max_speed_kmh'', 0), (''total_distance_km'', 0), (''max_cornering_force_g'', 0),
         (''max_braking_force_g'', 0), (''session_duration_hours'', 0)]"
  using reset_zeroes_statistics [of used_tracker frozen_world]
  by (simp add: reset_statistics_def get_statistics_def time_time_def Let_def split_def
      save_data_def disk_ok_def frozen_world_def still_clock_def used_tracker_def)

subsection \<open>Acceleration maxima\<close>

lemma b64_0_03: "binary64 (3 / 100) = 1080863910568919 / 2 ^ 55"
  using binary64_eval_neg [of 6 "3 / 100"] by (simp add: round_half_even_def)

lemma b64_0_04: "binary64 (4 / 100) = 5764607523034235 / 2 ^ 57"
  using binary64_eval_neg [of 5 "4 / 100"] by (simp add: round_half_even_def)

lemma b64_0_05: "binary64 (5 / 100) = 3602879701896397 / 2 ^ 56"
  using binary64_eval_neg [of 5 "5 / 100"] by (simp add: round_half_even_def)

lemma b64_1_20: "binary64 (1 / 20) = 3602879701896397 / 2 ^ 56"
  using b64_0_05 by simp

lemma b64_square_0_03:
  "binary64 (1080863910568919 / 2 ^ 55 * (1080863910568919 / 2 ^ 55))
     = 4150517416584649 / 2 ^ 62"
  using binary64_eval_neg [of 11 "1080863910568919 / 2 ^ 55 * (1080863910568919 / 2 ^ 55)"]
  by (simp add: round_half_even_def)

lemma b64_square_0_04:
  "binary64 (5764607523034235 / 2 ^ 57 * (5764607523034235 / 2 ^ 57))
     = 7378697629483821 / 2 ^ 62"
  using binary64_eval_neg [of 10 "5764607523034235 / 2 ^ 57 * (5764607523034235 / 2 ^ 57)"]
  by (simp add: round_half_even_def)

lemma b64_sum_of_squares:
  "binary64 (4150517416584649 / 2 ^ 62 + 7378697629483821 / 2 ^ 62)
     = 5764607523034235 / 2 ^ 61"
  using binary64_eval_neg [of 9 "4150517416584649 / 2 ^ 62 + 7378697629483821 / 2 ^ 62"]
  by (simp add: round_half_even_def)

lemma b64_sqrt_sum: "binary64 (sqrt (5764607523034235 / 2 ^ 61)) = 3602879701896397 / 2 ^ 56"
proof -
  let ?s = "5764607523034235 / 2 ^ 61 :: real"
  have lo: "(14411518807585587 / 2 ^ 58)\<^sup>2 < ?s"
    by (simp add: power2_eq_square)
  have hi: "?s < (14411518807585589 / 2 ^ 58)\<^sup>2"
    by (simp add: power2_eq_square)
  have l: "14411518807585587 / 2 ^ 58 < sqrt ?s"
    by (rule real_less_rsqrt [OF lo])
  have h: "sqrt ?s < 14411518807585589 / 2 ^ 58"
    by (rule real_less_lsqrt [OF _ hi]) simp
  have r: "round_half_even (sqrt ?s * 2 ^ (5 + 52)) = 7205759403792794"
    using l h by (intro round_half_even_between) simp_all
  have b1: "1 / 2 ^ 5 \<le> \<bar>sqrt ?s\<bar>" using l by simp
  have b2: "\<bar>sqrt ?s\<bar> < 2 / 2 ^ 5" using h by simp
  have "binary64 (sqrt ?s) = of_int (round_half_even (sqrt ?s * 2 ^ (5 + 52))) / 2 ^ (5 + 52)"
    by (rule binary64_eval_neg [OF b1 b2]) simp
  then show ?thesis
    unfolding r by simp
qed

lemma b64_0_95_minus_1:
  "binary64 (4278419646001971 / 2 ^ 52 - 1) = - (225179981368525 / 2 ^ 52)"
  using binary64_eval_neg [of 5 "4278419646001971 / 2 ^ 52 - 1"]
  by (simp add: round_half_even_def)

lemma update_acceleration_b64_Returns:
  assumes "update_acceleration_b64 square ax ay az trk w = Returns (trk', w')"
  shows "\<exists>ax2 ay2. square ax = Inr ax2 \<and> square ay = Inr ay2
      \<and> max_cornering_force_g trk' =
          (if binary64 (sqrt (binary64 (ax2 + ay2))) > max_cornering_force_g trk
           then binary64 (sqrt (binary64 (ax2 + ay2))) else max_cornering_force_g trk)
      \<and> max_braking_force_g trk' =
          (if \<bar>min 0 (binary64 (az - 1))\<bar> > max_braking_force_g trk
           then \<bar>min 0 (binary64 (az - 1))\<bar> else max_braking_force_g trk)"
proof -
  from assms obtain ax2 where x: "square ax = Inr ax2"
    by (cases "square ax") (simp_all add: update_acceleration_b64_def)
  from assms x obtain ay2 where y: "square ay = Inr ay2"
    by (cases "square ay") (simp_all add: update_acceleration_b64_def)
  from assms x y obtain s where s: "fl (ax2 + ay2) = Some s"
    by (cases "fl (ax2 + ay2)") (simp_all add: update_acceleration_b64_def finite_then_def)
  then have s': "s = binary64 (ax2 + ay2)" by (rule fl_Some)
  from assms x y s have nn: "\<not> s < 0"
    by (auto simp add: update_acceleration_b64_def finite_then_def math_sqrt_def
        split: if_splits)
  from assms x y s nn obtain dz where d: "fl (az - 1) = Some dz"
    by (cases "fl (az - 1)")
      (simp_all add: update_acceleration_b64_def finite_then_def math_sqrt_def Let_def
        split_def)
  then have d': "dz = binary64 (az - 1)" by (rule fl_Some)
  have "max_cornering_force_g trk' =
          (if binary64 (sqrt s) > max_cornering_force_g trk
           then binary64 (sqrt s) else max_cornering_force_g trk)
      \<and> max_braking_force_g trk' =
          (if \<bar>min 0 dz\<bar> > max_braking_force_g trk
           then \<bar>min 0 dz\<bar> else max_braking_force_g trk)"
    using assms x y s nn d
    by (auto simp add: update_acceleration_b64_def finite_then_def math_sqrt_def Let_def
        split_def split: if_splits)
  then show ?thesis
    using x y by (simp add: s' d')
qed

lemma update_acceleration_b64_Raises:
  "square ax = Inl e \<Longrightarrow> update_acceleration_b64 square ax ay az trk w = Raises e"
  "square ax = Inr ax2 \<Longrightarrow> square ay = Inl e \<Longrightarrow>
     update_acceleration_b64 square ax ay az trk w = Raises e"
  by (simp_all add: update_acceleration_b64_def)

lemma rounded_square_0_03:
  "rounded_square (binary64 (3 / 100)) = Inr (4150517416584649 / 2 ^ 62)"
  using fl_small [of "1080863910568919 / 2 ^ 55 * (1080863910568919 / 2 ^ 55)"]
  by (simp only: rounded_square_def b64_0_03 b64_square_0_03) simp

lemma rounded_square_0_04:
  "rounded_square (binary64 (4 / 100)) = Inr (7378697629483821 / 2 ^ 62)"
  using fl_small [of "5764607523034235 / 2 ^ 57 * (5764607523034235 / 2 ^ 57)"]
  by (simp only: rounded_square_def b64_0_04 b64_square_0_04) simp

lemma fl_sum_of_squares:
  "fl (4150517416584649 / 2 ^ 62 + 7378697629483821 / 2 ^ 62) = Some (5764607523034235 / 2 ^ 61)"
  using fl_small [of "4150517416584649 / 2 ^ 62 + 7378697629483821 / 2 ^ 62"]
  by (simp only: b64_sum_of_squares) simp

lemma fl_0_95_minus_1:
  "fl (binary64 (95 / 100) - 1) = Some (- (225179981368525 / 2 ^ 52))"
  using fl_small [of "4278419646001971 / 2 ^ 52 - 1"]
  by (simp only: b64_0_95 b64_0_95_minus_1) simp

lemma example_run:
  assumes x: "square (binary64 (3 / 100)) = rounded_square (binary64 (3 / 100))"
    and y: "square (binary64 (4 / 100)) = rounded_square (binary64 (4 / 100))"
    and z: "max_cornering_force_g trk = 0" "max_braking_force_g trk = 0"
  shows "update_acceleration_b64 square (binary64 (3 / 100)) (binary64 (4 / 100))
           (binary64 (95 / 100)) trk w =
     Returns (trk\<lparr>max_cornering_force_g := 3602879701896397 / 2 ^ 56,
                   max_braking_force_g := 225179981368525 / 2 ^ 52\<rparr>,
              save_data (trk\<lparr>max_cornering_force_g := 3602879701896397 / 2 ^ 56,
                            max_braking_force_g := 225179981368525 / 2 ^ 52\<rparr>)
                (save_data (trk\<lparr>max_cornering_force_g := 3602879701896397 / 2 ^ 56\<rparr>) w))"
proof -
  have sx: "square (binary64 (3 / 100)) = Inr (4150517416584649 / 2 ^ 62)"
    using x rounded_square_0_03 by simp
  have sy: "square (binary64 (4 / 100)) = Inr (7378697629483821 / 2 ^ 62)"
    using y rounded_square_0_04 by simp
  have q: "math_sqrt (5764607523034235 / 2 ^ 61) = Inr (3602879701896397 / 2 ^ 56)"
    unfolding math_sqrt_def b64_sqrt_sum by simp
  show ?thesis
    unfolding update_acceleration_b64_def sx sy sum.case fl_sum_of_squares finite_then_def
      option.case q fl_0_95_minus_1
    using z by (simp add: Let_def)
qed

lemma rounded_square_overflow:
  "rounded_square (2 ^ 600) = Inl (Exception ''OverflowError'')"
  using fl_overflow [of "2 ^ 600 * 2 ^ 600"] by (simp add: rounded_square_def)

text \<open>
  C5, as stated: on an all-zero tracker \<open>update_acceleration(0.03, 0.04, 0.95)\<close> leaves
  \<open>max_braking_force_g = 0.05\<close>. It fails: the code stores \<open>1 - 0.95\<close> computed on
  doubles, which is 225179981368525 / 2 ^ 52 (printed 0.050000000000000044), neither
  the number 0.05 nor the double nearest to it.
\<close>

theorem acceleration_example_rounded_counterexample:
  "update_acceleration_b64 rounded_square (binary64 (3 / 100)) (binary64 (4 / 100))
       (binary64 (95 / 100)) fresh_tracker world_after_init =
     Returns (fresh_tracker\<lparr>max_cornering_force_g := 3602879701896397 / 2 ^ 56,
                             max_braking_force_g := 225179981368525 / 2 ^ 52\<rparr>,
              save_data (fresh_tracker\<lparr>max_cornering_force_g := 3602879701896397 / 2 ^ 56,
                                      max_braking_force_g := 225179981368525 / 2 ^ 52\<rparr>)
                (save_data (fresh_tracker\<lparr>max_cornering_force_g := 3602879701896397 / 2 ^ 56\<rparr>)
                   world_after_init))
   \<and> max_braking_force_g
         (fresh_tracker\<lparr>max_cornering_force_g := 3602879701896397 / 2 ^ 56,
                        max_braking_force_g := 225179981368525 / 2 ^ 52\<rparr>) \<noteq> 5 / 100
   \<and> max_braking_force_g
         (fresh_tracker\<lparr>max_cornering_force_g := 3602879701896397 / 2 ^ 56,
                        max_braking_force_g := 225179981368525 / 2 ^ 52\<rparr>)
       \<noteq> binary64 (5 / 100)"
proof -
  have z: "max_cornering_force_g fresh_tracker = 0" "max_braking_force_g fresh_tracker = 0"
    by (simp_all add: fresh_tracker_fields)
  show ?thesis
    using example_run [OF refl refl z, of world_after_init]
    by (simp add: b64_1_20)
qed

text \<open>
  C5, amended. \<open>update_acceleration(ax, ay, az)\<close> computes in binary64 arithmetic the
  lateral force \<open>math.sqrt(ax ** 2 + ay ** 2)\<close> and the braking force
  \<open>abs(min(0, az - 1.0))\<close> and replaces each stored maximum exactly when the computed force
  exceeds it; when \<open>ax ** 2\<close> raises \<open>OverflowError\<close> so does the call. On an all-zero
  tracker the call with (0.03, 0.04, 0.95) leaves \<open>max_braking_force_g\<close> at
  225179981368525 / 2 ^ 52, which is within \<open>1 / 2 ^ 54\<close> of 0.05, and, where \<open>**\<close>
  rounds the two squares to the nearest double, \<open>max_cornering_force_g\<close> at the double
  nearest to 0.05.
\<close>

theorem acceleration_maxima_rounded:
  "(update_acceleration_b64 square ax ay az trk w = Returns (trk', w') \<longrightarrow>
      (\<exists>ax2 ay2. square ax = Inr ax2 \<and> square ay = Inr ay2
        \<and> max_cornering_force_g trk' =
            (if binary64 (sqrt (binary64 (ax2 + ay2))) > max_cornering_force_g trk
             then binary64 (sqrt (binary64 (ax2 + ay2))) else max_cornering_force_g trk)
        \<and> max_braking_force_g trk' =
            (if \<bar>min 0 (binary64 (az - 1))\<bar> > max_braking_force_g trk
             then \<bar>min 0 (binary64 (az - 1))\<bar> else max_braking_force_g trk)))
   \<and> (square ax = Inl e \<longrightarrow> update_acceleration_b64 square ax ay az trk w = Raises e)
   \<and> (max_cornering_force_g trk = 0 \<and> max_braking_force_g trk = 0
      \<and> square (binary64 (3 / 100)) = rounded_square (binary64 (3 / 100))
      \<and> square (binary64 (4 / 100)) = rounded_square (binary64 (4 / 100)) \<longrightarrow>
        (\<exists>trk1 w1.
           update_acceleration_b64 square (binary64 (3 / 100)) (binary64 (4 / 100))
             (binary64 (95 / 100)) trk w = Returns (trk1, w1)
         \<and> max_cornering_force_g trk1 = binary64 (5 / 100)
         \<and> max_braking_force_g trk1 = 225179981368525 / 2 ^ 52
         \<and> \<bar>max_braking_force_g trk1 - 5 / 100\<bar> \<le> 1 / 2 ^ 54))"
proof (intro conjI impI)
  assume "update_acceleration_b64 square ax ay az trk w = Returns (trk', w')"
  then show "\<exists>ax2 ay2. square ax = Inr ax2 \<and> square ay = Inr ay2
        \<and> max_cornering_force_g trk' =
            (if binary64 (sqrt (binary64 (ax2 + ay2))) > max_cornering_force_g trk
             then binary64 (sqrt (binary64 (ax2 + ay2))) else max_cornering_force_g trk)
        \<and> max_braking_force_g trk' =
            (if \<bar>min 0 (binary64 (az - 1))\<bar> > max_braking_force_g trk
             then \<bar>min 0 (binary64 (az - 1))\<bar> else max_braking_force_g trk)"
    by (rule update_acceleration_b64_Returns)
next
  assume "square ax = Inl e"
  then show "update_acceleration_b64 square ax ay az trk w = Raises e"
    by (rule update_acceleration_b64_Raises)
next
  assume a: "max_cornering_force_g trk = 0 \<and> max_braking_force_g trk = 0
      \<and> square (binary64 (3 / 100)) = rounded_square (binary64 (3 / 100))
      \<and> square (binary64 (4 / 100)) = rounded_square (binary64 (4 / 100))"
  have run: "update_acceleration_b64 square (binary64 (3 / 100)) (binary64 (4 / 100))
           (binary64 (95 / 100)) trk w =
     Returns (trk\<lparr>max_cornering_force_g := 3602879701896397 / 2 ^ 56,
                   max_braking_force_g := 225179981368525 / 2 ^ 52\<rparr>,
              save_data (trk\<lparr>max_cornering_force_g := 3602879701896397 / 2 ^ 56,
                            max_braking_force_g := 225179981368525 / 2 ^ 52\<rparr>)
                (save_data (trk\<lparr>max_cornering_force_g := 3602879701896397 / 2 ^ 56\<rparr>) w))"
    using a by (intro example_run) simp_all
  show "\<exists>trk1 w1.
           update_acceleration_b64 square (binary64 (3 / 100)) (binary64 (4 / 100))
             (binary64 (95 / 100)) trk w = Returns (trk1, w1)
         \<and> max_cornering_force_g trk1 = binary64 (5 / 100)
         \<and> max_braking_force_g trk1 = 225179981368525 / 2 ^ 52
         \<and> \<bar>max_braking_force_g trk1 - 5 / 100\<bar> \<le> 1 / 2 ^ 54"
    unfolding run by (simp add: b64_1_20)
qed

theorem acceleration_maxima_rounded_witness:
  "update_acceleration_b64 rounded_square (binary64 (3 / 100)) (binary64 (4 / 100))
       (binary64 (95 / 100)) fresh_tracker world_after_init =
     Returns (fresh_tracker\<lparr>max_cornering_force_g := 3602879701896397 / 2 ^ 56,
                             max_braking_force_g := 225179981368525 / 2 ^ 52\<rparr>,
              save_data (fresh_tracker\<lparr>max_cornering_force_g := 3602879701896397 / 2 ^ 56,
                                      max_braking_force_g := 225179981368525 / 2 ^ 52\<rparr>)
                (save_data (fresh_tracker\<lparr>max_cornering_force_g := 3602879701896397 / 2 ^ 56\<rparr>)
                   world_after_init))
   \<and> rounded_square (binary64 (3 / 100)) = Inr (4150517416584649 / 2 ^ 62)
   \<and> rounded_square (binary64 (4 / 100)) = Inr (7378697629483821 / 2 ^ 62)
   \<and> max_cornering_force_g fresh_tracker = 0 \<and> max_braking_force_g fresh_tracker = 0
   \<and> 3602879701896397 / 2 ^ 56 = binary64 (5 / 100)
   \<and> \<bar>225179981368525 / 2 ^ 52 - 5 / 100\<bar> \<le> (1::real) / 2 ^ 54
   \<and> rounded_square (2 ^ 600) = Inl (Exception ''OverflowError'')
   \<and> update_acceleration_b64 rounded_square (2 ^ 600) 0 1 fresh_tracker world_after_init
       = Raises (Exception ''OverflowError'')"
proof -
  have z: "max_cornering_force_g fresh_tracker = 0" "max_braking_force_g fresh_tracker = 0"
    by (simp_all add: fresh_tracker_fields)
  note over = rounded_square_overflow
  show ?thesis
    using z over rounded_square_0_03 rounded_square_0_04
      acceleration_maxima_rounded [of rounded_square "binary64 (3 / 100)" "binary64 (4 / 100)"
        "binary64 (95 / 100)" fresh_tracker world_after_init
        "fresh_tracker\<lparr>max_cornering_force_g := 3602879701896397 / 2 ^ 56,
                        max_braking_force_g := 225179981368525 / 2 ^ 52\<rparr>"
        "save_data (fresh_tracker\<lparr>max_cornering_force_g := 3602879701896397 / 2 ^ 56,
                                  max_braking_force_g := 225179981368525 / 2 ^ 52\<rparr>)
           (save_data (fresh_tracker\<lparr>max_cornering_force_g := 3602879701896397 / 2 ^ 56\<rparr>)
              world_after_init)" "Exception ''OverflowError''"]
      acceleration_maxima_rounded [of rounded_square "2 ^ 600" 0 1 fresh_tracker world_after_init
        fresh_tracker world_after_init "Exception ''OverflowError''"]
      example_run [OF refl refl z, of world_after_init]
    by (simp add: b64_1_20)
qed

subsection \<open>Health status\<close>

lemma sample_manager_fields:
  "sample_manager =
     \<lparr>statistics = fresh_tracker, speed_offset = 0, altitude_offset = 0, temp_offset = 0,
      sensor_errors = [(''hall'', False), (''barometer'', False),
                       (''thermometer'', False), (''accelerometer'', False)],
      last_successful_reads = [(''hall'', 2), (''barometer'', 3),
                               (''thermometer'', 4), (''accelerometer'', 5)],
      error_timeout = 5\<rparr>"
  by (simp add: sample_manager_def SensorManager_init_def fresh_tracker_def
      StatisticsTracker_init_def time_time_def fresh_world_def split_def Let_def)

lemma sample_world_fields:
  "sample_world = \<lparr>clock = real, ticks = 6, files = Map.empty, disk = disk_ok\<rparr>"
  by (simp add: sample_world_def SensorManager_init_def
      StatisticsTracker_init_def time_time_def fresh_world_def split_def Let_def eval_nat_numeral)

lemma status_loop_other:
  "status_loop m t names st = Inr res \<Longrightarrow> n \<notin> set names \<Longrightarrow> map_of res n = map_of st n"
proof (induction names arbitrary: st)
  case Nil
  then show ?case by simp
next
  case (Cons a names)
  from Cons.prems obtain l err where
    l: "map_of (last_successful_reads m) a = Some l" and
    e: "map_of (sensor_errors m) a = Some err"
    by (auto split: option.splits)
  let ?st = "AList.update a \<lparr>healthy = (\<not> err \<and> t - l < error_timeout m), error = err,
      time_since_last_read = t - l\<rparr> st"
  have "status_loop m t names ?st = Inr res"
    using Cons.prems(1) l e by (simp add: Let_def)
  then have "map_of res n = map_of ?st n"
    using Cons.IH [of ?st] Cons.prems(2) by simp
  then show ?case
    using Cons.prems(2) by (simp add: AList.update_conv')
qed

lemma status_loop_entry:
  "status_loop m t names st = Inr res \<Longrightarrow> n \<in> set names \<Longrightarrow>
   map_of (last_successful_reads m) n = Some l \<Longrightarrow> map_of (sensor_errors m) n = Some err \<Longrightarrow>
   map_of res n = Some \<lparr>healthy = (\<not> err \<and> t - l < error_timeout m), error = err,
      time_since_last_read = t - l\<rparr>"
proof (induction names arbitrary: st)
  case Nil
  then show ?case by simp
next
  case (Cons a names)
  from Cons.prems(1) obtain l' err' where
    l: "map_of (last_successful_reads m) a = Some l'" and
    e: "map_of (sensor_errors m) a = Some err'"
    by (auto split: option.splits)
  let ?st = "AList.update a \<lparr>healthy = (\<not> err' \<and> t - l' < error_timeout m), error = err',
      time_since_last_read = t - l'\<rparr> st"
  have run: "status_loop m t names ?st = Inr res"
    using Cons.prems(1) l e by (simp add: Let_def)
  show ?case
  proof (cases "n \<in> set names")
    case True
    then show ?thesis
      using Cons.IH [OF run] Cons.prems(3,4) by simp
  next
    case False
    with Cons.prems(2) have an: "a = n" by simp
    have "map_of res n = map_of ?st n"
      using status_loop_other [OF run False] .
    then show ?thesis
      using an l e Cons.prems(3,4) by (simp add: AList.update_conv')
  qed
qed

lemma status_loop_total:
  "set names \<subseteq> fst ` set (sensor_errors m) \<Longrightarrow>
   fst ` set (sensor_errors m) \<subseteq> fst ` set (last_successful_reads m) \<Longrightarrow>
   \<exists>res. status_loop m t names st = Inr res"
proof (induction names arbitrary: st)
  case Nil
  then show ?case by simp
next
  case (Cons a names)
  from Cons.prems have "a \<in> fst ` set (sensor_errors m)"
    and "a \<in> fst ` set (last_successful_reads m)" by auto
  then obtain l err where
    "map_of (last_successful_reads m) a = Some l" "map_of (sensor_errors m) a = Some err"
    by (metis map_of_eq_None_iff not_Some_eq)
  then show ?case
    using Cons.IH Cons.prems by (simp add: Let_def)
qed

lemma channel_healthy_rule:
  assumes "manager_ok m" "map_of (sensor_errors m) name = Some err"
    "map_of (last_successful_reads m) name = Some l"
  shows "channel_healthy m w name = Some (\<not> err \<and> clock w (ticks w) - l < 5)"
proof -
  let ?t = "clock w (ticks w)"
  let ?names = "map fst (sensor_errors m)"
  from assms(1) have ks: "fst ` set (sensor_errors m) \<subseteq> fst ` set (last_successful_reads m)"
    and to: "error_timeout m = 5" by (simp_all add: manager_ok_def)
  obtain res where res: "status_loop m ?t ?names [] = Inr res"
    using status_loop_total [of ?names m ?t "[]"] ks by auto
  have "name \<in> set ?names"
    using assms(2) by (metis map_of_eq_None_iff option.distinct(1) set_map)
  then have "map_of res name = Some \<lparr>healthy = (\<not> err \<and> ?t - l < error_timeout m), error = err,
      time_since_last_read = ?t - l\<rparr>"
    using status_loop_entry [OF res _ assms(3) assms(2)] by simp
  then show ?thesis
    using res to by (simp add: channel_healthy_def get_sensor_status_def time_time_def)
qed

lemma manager_ok_init: "manager_ok (fst (SensorManager_init w))"
  by (simp add: manager_ok_def channel_names_def SensorManager_init_def split_def Let_def)

lemma manager_ok_get_speed_kmh: "manager_ok m \<Longrightarrow> manager_ok (fst (snd (get_speed_kmh rd m w)))"
  by (auto simp add: manager_ok_def channel_names_def get_speed_kmh_def split_def Let_def AList.dom_update
      split: sum.splits)

lemma manager_ok_get_altitude_m: "manager_ok m \<Longrightarrow> manager_ok (fst (snd (get_altitude_m rd m w)))"
  by (auto simp add: manager_ok_def channel_names_def get_altitude_m_def split_def Let_def AList.dom_update
      split: sum.splits)

lemma manager_ok_get_temperature_c:
  "manager_ok m \<Longrightarrow> manager_ok (fst (snd (get_temperature_c rd m w)))"
  by (auto simp add: manager_ok_def channel_names_def get_temperature_c_def split_def Let_def AList.dom_update
      split: sum.splits)

lemma manager_ok_get_acceleration_g:
  "manager_ok m \<Longrightarrow> manager_ok (fst (snd (get_acceleration_g rd m w)))"
  by (auto simp add: manager_ok_def channel_names_def get_acceleration_g_def split_def Let_def AList.dom_update
      split: sum.splits)

lemma get_speed_kmh_marks:
  "map_of (sensor_errors (fst (snd (get_speed_kmh (Inr raw) m w)))) ''hall'' = Some False
   \<and> map_of (last_successful_reads (fst (snd (get_speed_kmh (Inr raw) m w)))) ''hall''
       = Some (clock w (ticks w))"
  by (simp add: get_speed_kmh_def split_def Let_def AList.update_conv' time_time_def)

lemma get_altitude_m_marks:
  "map_of (sensor_errors (fst (snd (get_altitude_m (Inr raw) m w)))) ''barometer'' = Some False
   \<and> map_of (last_successful_reads (fst (snd (get_altitude_m (Inr raw) m w)))) ''barometer''
       = Some (clock w (ticks w))"
  by (simp add: get_altitude_m_def split_def Let_def AList.update_conv' time_time_def)

lemma get_temperature_c_marks:
  "map_of (sensor_errors (fst (snd (get_temperature_c (Inr raw) m w)))) ''thermometer''
       = Some False
   \<and> map_of (last_successful_reads (fst (snd (get_temperature_c (Inr raw) m w)))) ''thermometer''
       = Some (clock w (ticks w))"
  by (simp add: get_temperature_c_def split_def Let_def AList.update_conv' time_time_def)

lemma get_acceleration_g_marks:
  "map_of (sensor_errors (fst (snd (get_acceleration_g (Inr a) m w)))) ''accelerometer''
       = Some False
   \<and> map_of (last_successful_reads (fst (snd (get_acceleration_g (Inr a) m w)))) ''accelerometer''
       = Some (clock w (ticks w))"
  by (simp add: get_acceleration_g_def split_def Let_def AList.update_conv' time_time_def)

text \<open>
  C6. For a coordinator in a constructed state and every channel, \<open>get_sensor_status\<close>
  returns normally and reports \<open>healthy\<close> for the channel exactly when its
  \<open>sensor_errors\<close> entry is false and the time since its last successful read is
  strictly below 5.0 seconds. Hence a channel without a successful read for 5.0 seconds or
  more is reported unhealthy, and a channel whose accessor has just succeeded (flag
  cleared, timestamp set to the reading of that call) is reported healthy by a status call
  that reads the same instant, and more generally by one less than 5.0 seconds later.
\<close>

theorem sensor_health_rule:
  assumes ok: "manager_ok m"
  shows "(map_of (sensor_errors m) name = Some err
           \<and> map_of (last_successful_reads m) name = Some l \<longrightarrow>
             channel_healthy m w name = Some (\<not> err \<and> clock w (ticks w) - l < 5)
           \<and> (5 \<le> clock w (ticks w) - l \<longrightarrow> channel_healthy m w name = Some False))
   \<and> channel_healthy (fst (snd (get_speed_kmh (Inr raw) m w))) w' ''hall''
       = Some (clock w' (ticks w') - clock w (ticks w) < 5)
   \<and> channel_healthy (fst (snd (get_altitude_m (Inr raw) m w))) w' ''barometer''
       = Some (clock w' (ticks w') - clock w (ticks w) < 5)
   \<and> channel_healthy (fst (snd (get_temperature_c (Inr raw) m w))) w' ''thermometer''
       = Some (clock w' (ticks w') - clock w (ticks w) < 5)
   \<and> channel_healthy (fst (snd (get_acceleration_g (Inr a) m w))) w' ''accelerometer''
       = Some (clock w' (ticks w') - clock w (ticks w) < 5)
   \<and> (clock w' (ticks w') = clock w (ticks w) \<longrightarrow>
        channel_healthy (fst (snd (get_speed_kmh (Inr raw) m w))) w' ''hall'' = Some True
      \<and> channel_healthy (fst (snd (get_altitude_m (Inr raw) m w))) w' ''barometer'' = Some True
      \<and> channel_healthy (fst (snd (get_temperature_c (Inr raw) m w))) w' ''thermometer''
          = Some True
      \<and> channel_healthy (fst (snd (get_acceleration_g (Inr a) m w))) w' ''accelerometer''
          = Some True)"
proof -
  have general: "map_of (sensor_errors m) name = Some err
           \<and> map_of (last_successful_reads m) name = Some l \<longrightarrow>
             channel_healthy m w name = Some (\<not> err \<and> clock w (ticks w) - l < 5)
           \<and> (5 \<le> clock w (ticks w) - l \<longrightarrow> channel_healthy m w name = Some False)"
    using channel_healthy_rule [OF ok, of name err l w] by auto
  have hall: "channel_healthy (fst (snd (get_speed_kmh (Inr raw) m w))) w' ''hall''
       = Some (clock w' (ticks w') - clock w (ticks w) < 5)"
    using channel_healthy_rule [OF manager_ok_get_speed_kmh [OF ok, of "Inr raw" w],
        of "''hall''" False "clock w (ticks w)" w'] get_speed_kmh_marks [of raw m w]
    by simp
  have baro: "channel_healthy (fst (snd (get_altitude_m (Inr raw) m w))) w' ''barometer''
       = Some (clock w' (ticks w') - clock w (ticks w) < 5)"
    using channel_healthy_rule [OF manager_ok_get_altitude_m [OF ok, of "Inr raw" w],
        of "''barometer''" False "clock w (ticks w)" w'] get_altitude_m_marks [of raw m w]
    by simp
  have thermo: "channel_healthy (fst (snd (get_temperature_c (Inr raw) m w))) w' ''thermometer''
       = Some (clock w' (ticks w') - clock w (ticks w) < 5)"
    using channel_healthy_rule [OF manager_ok_get_temperature_c [OF ok, of "Inr raw" w],
        of "''thermometer''" False "clock w (ticks w)" w'] get_temperature_c_marks [of raw m w]
    by simp
  have accel: "channel_healthy (fst (snd (get_acceleration_g (Inr a) m w))) w' ''accelerometer''
       = Some (clock w' (ticks w') - clock w (ticks w) < 5)"
    using channel_healthy_rule [OF manager_ok_get_acceleration_g [OF ok, of "Inr a" w],
        of "''accelerometer''" False "clock w (ticks w)" w'] get_acceleration_g_marks [of a m w]
    by simp
  show ?thesis
    using general hall baro thermo accel by simp
qed

theorem sensor_health_rule_witness:
  "manager_ok sample_manager
   \<and> map_of (sensor_errors sample_manager) ''barometer'' = Some False
   \<and> map_of (last_successful_reads sample_manager) ''barometer'' = Some 3
   \<and> channel_healthy sample_manager sample_world ''barometer'' = Some True
   \<and> 5 \<le> clock late_world (ticks late_world) - 3
   \<and> channel_healthy sample_manager late_world ''barometer'' = Some False
   \<and> clock sample_world (ticks sample_world) = clock sample_world (ticks sample_world)
   \<and> channel_healthy (fst (snd (get_altitude_m (Inr 20) sample_manager sample_world)))
        sample_world ''barometer'' = Some True
   \<and> channel_healthy (fst (snd (get_speed_kmh (Inr 20) sample_manager sample_world)))
        late_world ''hall'' = Some False"
proof -
  have ok: "manager_ok sample_manager"
    unfolding sample_manager_def by (rule manager_ok_init)
  have e: "map_of (sensor_errors sample_manager) ''barometer'' = Some False"
    by (simp add: sample_manager_fields)
  have l: "map_of (last_successful_reads sample_manager) ''barometer'' = Some 3"
    by (simp add: sample_manager_fields)
  have t1: "clock sample_world (ticks sample_world) = 6"
    by (simp add: sample_world_fields)
  have t2: "clock late_world (ticks late_world) = 60"
    by (simp add: late_world_def)
  show ?thesis
    using ok e l t1 t2
      sensor_health_rule [OF ok, of "''barometer''" False 3 sample_world 20 sample_world "(0, 0, 1)"]
      sensor_health_rule [OF ok, of "''barometer''" False 3 late_world 20 sample_world "(0, 0, 1)"]
      sensor_health_rule [OF ok, of "''barometer''" False 3 sample_world 20 late_world "(0, 0, 1)"]
    by simp
qed

subsection \<open>Calibration\<close>




















subsection \<open>Persistence\<close>

lemma reconstruct_after_save:
  "disk w (data_file trk) = Io_ok \<Longrightarrow>
     persisted_fields (reconstruct trk (save_data trk w)) = persisted_fields trk"
  by (simp add: persisted_fields_def reconstruct_def StatisticsTracker_init_def save_data_def
      load_data_def dict_get_def time_time_def split_def Let_def)

lemma reconstruct_timestamps:
  "session_start_time (reconstruct trk w) = clock w (ticks w)
   \<and> last_update_time (reconstruct trk w) = clock w (Suc (ticks w))"
  by (simp add: reconstruct_def StatisticsTracker_init_def load_data_def time_time_def
      split_def Let_def split: option.splits file_content.splits)

lemma reconstruct_last_update:
  "reconstruct (trk\<lparr>last_update_time := t\<rparr>) w = reconstruct trk w"
  by (simp add: reconstruct_def)

lemma persisted_last_update:
  "persisted_fields (trk\<lparr>last_update_time := t\<rparr>) = persisted_fields trk"
  by (simp add: persisted_fields_def)

lemma update_speed_persists:
  "disk w (data_file trk) = Io_ok \<Longrightarrow> max_speed_kmh trk < v \<Longrightarrow>
     persisted_fields (reconstruct (fst (update_speed v trk w)) (snd (update_speed v trk w)))
       = persisted_fields (fst (update_speed v trk w))"
  using reconstruct_after_save [of w "trk\<lparr>max_speed_kmh := v\<rparr>"]
  by (simp add: update_speed_def Let_def)

lemma update_distance_persists:
  "disk w (data_file trk) = Io_ok \<Longrightarrow> 0 < v \<Longrightarrow> last_update_time trk < clock w (ticks w) \<Longrightarrow>
     persisted_fields (reconstruct (fst (update_distance v trk w)) (snd (update_distance v trk w)))
       = persisted_fields (fst (update_distance v trk w))"
  using reconstruct_after_save [of "snd (time_time w)"
      "trk\<lparr>total_distance_km := total_distance_km trk
                + v * (clock w (ticks w) - last_update_time trk) / 3600\<rparr>"]
  by (simp add: update_distance_def Let_def split_def time_time_def
      reconstruct_last_update persisted_last_update)

lemma reset_statistics_persists:
  "disk w (data_file trk) = Io_ok \<Longrightarrow>
     persisted_fields (reconstruct (fst (reset_statistics trk w)) (snd (reset_statistics trk w)))
       = persisted_fields (fst (reset_statistics trk w))"
  by (simp add: reset_statistics_def Let_def split_def time_time_def reconstruct_after_save)

lemma save_then_save:
  "disk w (data_file trk) = Io_ok \<Longrightarrow> data_file trk' = data_file trk \<Longrightarrow>
     persisted_fields (reconstruct trk' (save_data trk' (save_data trk w))) = persisted_fields trk'"
  using reconstruct_after_save [of "save_data trk w" trk']
  by (simp add: save_data_disk)

lemma update_acceleration_persists:
  assumes d: "disk w (data_file trk) = Io_ok"
    and c: "max_cornering_force_g trk < sqrt (ax\<^sup>2 + ay\<^sup>2)
            \<or> max_braking_force_g trk < \<bar>min 0 (az - 1)\<bar>"
  shows "persisted_fields (reconstruct (fst (update_acceleration ax ay az trk w))
            (snd (update_acceleration ax ay az trk w)))
       = persisted_fields (fst (update_acceleration ax ay az trk w))"
proof (cases "max_cornering_force_g trk < sqrt (ax\<^sup>2 + ay\<^sup>2)")
  case True
  let ?t1 = "trk\<lparr>max_cornering_force_g := sqrt (ax\<^sup>2 + ay\<^sup>2)\<rparr>"
  show ?thesis
  proof (cases "max_braking_force_g trk < \<bar>min 0 (az - 1)\<bar>")
    case b: True
    show ?thesis
      using True b d save_then_save [of w ?t1 "?t1\<lparr>max_braking_force_g := \<bar>min 0 (az - 1)\<bar>\<rparr>"]
      by (simp add: update_acceleration_def Let_def)
  next
    case b: False
    show ?thesis
      using True b d reconstruct_after_save [of w ?t1]
      by (simp add: update_acceleration_def Let_def)
  qed
next
  case False
  with c have b: "max_braking_force_g trk < \<bar>min 0 (az - 1)\<bar>" by simp
  show ?thesis
    using False b d reconstruct_after_save [of w "trk\<lparr>max_braking_force_g := \<bar>min 0 (az - 1)\<bar>\<rparr>"]
    by (simp add: update_acceleration_def Let_def)
qed

text \<open>
  C8. When the disk accepts the write, a tracker constructed on the same file after
  \<open>_save_data\<close> has the maximum speed, the distance and the two force maxima that the
  saving tracker held; the same holds after each update that changes a statistic
  (\<open>update_speed\<close> above the maximum, \<open>update_distance\<close> with positive speed and elapsed
  time, \<open>update_acceleration\<close> above a maximum, \<open>reset_statistics\<close>), against the tracker
  as the update left it. The new tracker's session start and last-update timestamps are
  the clock readings of its own construction, not the saved tracker's.
\<close>

theorem persistence_round_trip:
  assumes "disk w (data_file trk) = Io_ok"
  shows "persisted_fields (reconstruct trk (save_data trk w)) = persisted_fields trk
   \<and> (max_speed_kmh trk < v \<longrightarrow>
        persisted_fields (reconstruct (fst (update_speed v trk w)) (snd (update_speed v trk w)))
          = persisted_fields (fst (update_speed v trk w)))
   \<and> (0 < v \<and> last_update_time trk < clock w (ticks w) \<longrightarrow>
        persisted_fields
            (reconstruct (fst (update_distance v trk w)) (snd (update_distance v trk w)))
          = persisted_fields (fst (update_distance v trk w)))
   \<and> (max_cornering_force_g trk < sqrt (ax\<^sup>2 + ay\<^sup>2)
        \<or> max_braking_force_g trk < \<bar>min 0 (az - 1)\<bar> \<longrightarrow>
        persisted_fields (reconstruct (fst (update_acceleration ax ay az trk w))
            (snd (update_acceleration ax ay az trk w)))
          = persisted_fields (fst (update_acceleration ax ay az trk w)))
   \<and> persisted_fields
        (reconstruct (fst (reset_statistics trk w)) (snd (reset_statistics trk w)))
       = persisted_fields (fst (reset_statistics trk w))
   \<and> session_start_time (reconstruct trk (save_data trk w)) = clock w (Suc (ticks w))
   \<and> last_update_time (reconstruct trk (save_data trk w)) = clock w (Suc (Suc (ticks w)))"
proof -
  have ts: "ticks (save_data trk w) = Suc (ticks w)"
    using assms by (simp add: save_data_def time_time_def)
  have "session_start_time (reconstruct trk (save_data trk w)) = clock w (Suc (ticks w))"
    and "last_update_time (reconstruct trk (save_data trk w)) = clock w (Suc (Suc (ticks w)))"
    using reconstruct_timestamps [of trk "save_data trk w"]
    by (simp_all add: ts save_data_clock)
  then show ?thesis
    using reconstruct_after_save [OF assms] update_speed_persists [OF assms, of v]
      update_distance_persists [OF assms, of v] reset_statistics_persists [OF assms]
      update_acceleration_persists [OF assms, of ax ay az]
    by blast
qed

theorem persistence_round_trip_witness:
  "disk frozen_world (data_file used_tracker) = Io_ok
   \<and> max_speed_kmh used_tracker < 50
   \<and> (0::real) < 50
   \<and> last_update_time used_tracker < clock frozen_world (ticks frozen_world)
   \<and> max_braking_force_g used_tracker < \<bar>min 0 (0 - 1)\<bar>
   \<and> persisted_fields (reconstruct used_tracker (save_data used_tracker frozen_world))
       = (42, 3, 1 / 2, 1 / 4)
   \<and> persisted_fields (reconstruct (fst (update_speed 50 used_tracker frozen_world))
         (snd (update_speed 50 used_tracker frozen_world)))
       = persisted_fields (fst (update_speed 50 used_tracker frozen_world))
   \<and> persisted_fields (reconstruct (fst (update_distance 50 used_tracker frozen_world))
         (snd (update_distance 50 used_tracker frozen_world)))
       = persisted_fields (fst (update_distance 50 used_tracker frozen_world))
   \<and> persisted_fields (reconstruct (fst (update_acceleration 0 0 0 used_tracker frozen_world))
         (snd (update_acceleration 0 0 0 used_tracker frozen_world)))
       = persisted_fields (fst (update_acceleration 0 0 0 used_tracker frozen_world))
   \<and> session_start_time (reconstruct used_tracker (save_data used_tracker frozen_world)) = 1000"
proof -
  have d: "disk frozen_world (data_file used_tracker) = Io_ok"
    by (simp add: frozen_world_def disk_ok_def)
  have h: "max_speed_kmh used_tracker < 50"
    "last_update_time used_tracker < clock frozen_world (ticks frozen_world)"
    "max_braking_force_g used_tracker < \<bar>min 0 (0 - 1)\<bar>"
    by (simp_all add: used_tracker_def frozen_world_def still_clock_def)
  have p: "persisted_fields used_tracker = (42, 3, 1 / 2, 1 / 4)"
    by (simp add: persisted_fields_def used_tracker_def)
  have c: "clock frozen_world (Suc (ticks frozen_world)) = 1000"
    by (simp add: frozen_world_def still_clock_def)
  show ?thesis
    using d h p c persistence_round_trip [OF d, of 50 0 0 0]
    by simp
qed

subsection \<open>Hall sensor pulses\<close>

lemma pulse_callback_result:
  "pulse_callback h w =
     Inr (h\<lparr>speed_kmh :=
              (if last_pulse_time h > 0 \<and> clock w (ticks w) - last_pulse_time h > 0
               then wheel_circumference_m h / (clock w (ticks w) - last_pulse_time h) * 3.6
               else speed_kmh h),
            last_pulse_time := clock w (ticks w),
            pulse_count := pulse_count h + 1\<rparr>,
          w\<lparr>ticks := Suc (ticks w)\<rparr>)"
  by (simp add: pulse_callback_def time_time_def py_truediv_def Let_def)

lemma pulses_total: "\<exists>h' w'. pulses n h w = Inr (h', w')"
  by (induction n arbitrary: h w) (simp_all add: pulse_callback_result)

text \<open>
  C9. The pulse handler never raises (no division by zero) and on every pulse sets
  \<open>last_pulse_time\<close> to the current reading and adds one to \<open>pulse_count\<close>. It leaves
  \<open>speed_kmh\<close> unchanged when there was no earlier pulse (\<open>last_pulse_time\<close> is 0, or
  not positive) and when the time since the earlier pulse is not positive; it divides only
  by a positive interval. From the constructor's state, after at most one pulse the speed
  is still 0.0.
\<close>

theorem pulse_handler_guards:
  "(\<exists>h' w'. pulse_callback h w = Inr (h', w')
       \<and> last_pulse_time h' = clock w (ticks w)
       \<and> pulse_count h' = pulse_count h + 1
       \<and> (last_pulse_time h \<le> 0 \<or> clock w (ticks w) - last_pulse_time h \<le> 0
            \<longrightarrow> speed_kmh h' = speed_kmh h)
       \<and> (last_pulse_time h > 0 \<and> clock w (ticks w) - last_pulse_time h > 0
            \<longrightarrow> speed_kmh h' =
                 wheel_circumference_m h / (clock w (ticks w) - last_pulse_time h) * 3.6))
   \<and> (\<exists>h' w'. pulses n h w = Inr (h', w'))
   \<and> (n \<le> 1 \<longrightarrow>
        (\<exists>h' w'. pulses n (HallSensor_init pin circumference) w = Inr (h', w')
            \<and> speed_kmh h' = 0 \<and> pulse_count h' = int n))"
proof (intro conjI)
  show "\<exists>h' w'. pulse_callback h w = Inr (h', w')
       \<and> last_pulse_time h' = clock w (ticks w)
       \<and> pulse_count h' = pulse_count h + 1
       \<and> (last_pulse_time h \<le> 0 \<or> clock w (ticks w) - last_pulse_time h \<le> 0
            \<longrightarrow> speed_kmh h' = speed_kmh h)
       \<and> (last_pulse_time h > 0 \<and> clock w (ticks w) - last_pulse_time h > 0
            \<longrightarrow> speed_kmh h' =
                 wheel_circumference_m h / (clock w (ticks w) - last_pulse_time h) * 3.6)"
    by (simp add: pulse_callback_result)
  show "\<exists>h' w'. pulses n h w = Inr (h', w')"
    by (rule pulses_total)
  show "n \<le> 1 \<longrightarrow>
        (\<exists>h' w'. pulses n (HallSensor_init pin circumference) w = Inr (h', w')
            \<and> speed_kmh h' = 0 \<and> pulse_count h' = int n)"
  proof
    assume "n \<le> 1"
    then consider "n = 0" | "n = Suc 0" by linarith
    then show "\<exists>h' w'. pulses n (HallSensor_init pin circumference) w = Inr (h', w')
            \<and> speed_kmh h' = 0 \<and> pulse_count h' = int n"
      by cases (simp_all add: pulse_callback_result HallSensor_init_def)
  qed
qed

theorem pulse_handler_guards_witness:
  "last_pulse_time (HallSensor_init 18 1) \<le> 0
   \<and> (1::nat) \<le> 1
   \<and> pulses 1 (HallSensor_init 18 1) world_after_init = Inr (one_pulse_sensor, world_after_pulse)
   \<and> last_pulse_time one_pulse_sensor > 0
   \<and> clock world_after_pulse (ticks world_after_pulse) - last_pulse_time one_pulse_sensor > 0
   \<and> pulse_callback one_pulse_sensor world_after_pulse =
        Inr (one_pulse_sensor\<lparr>speed_kmh := 3.6, last_pulse_time := 3, pulse_count := 2\<rparr>,
             world_after_pulse\<lparr>ticks := 4\<rparr>)"
  using pulse_handler_guards [of "HallSensor_init 18 1" world_after_init 1 18 1]
    pulse_handler_guards [of one_pulse_sensor world_after_pulse 1 18 1]
  by (simp add: pulse_callback_def py_truediv_def time_time_def HallSensor_init_def
      one_pulse_sensor_def world_after_pulse_def world_after_init_fields Let_def)

subsection \<open>A failed speed read and the statistics\<close>

lemma get_speed_kmh_ok_statistics:
  "statistics (fst (snd (get_speed_kmh (Inr raw) m w))) =
     fst (update_distance (max 0 (raw + speed_offset m))
            (fst (update_speed (max 0 (raw + speed_offset m)) (statistics m) (snd (time_time w))))
            (snd (update_speed (max 0 (raw + speed_offset m)) (statistics m) (snd (time_time w)))))"
  by (simp add: get_speed_kmh_def split_def Let_def)

lemma update_distance_total:
  "total_distance_km (fst (update_distance v trk w)) =
     (if last_update_time (fst (update_distance v trk w)) - last_update_time trk > 0 \<and> v > 0
      then total_distance_km trk
           + v * (last_update_time (fst (update_distance v trk w)) - last_update_time trk) / 3600
      else total_distance_km trk)"
  by (simp add: update_distance_def time_time_def Let_def split_def)

text \<open>
  C10. When the hall read raises inside \<open>get_speed_kmh\<close>, the tracker is unchanged and
  neither the clock nor the file is touched: \<open>update_speed\<close> and \<open>update_distance\<close> do
  not run, so \<open>last_update_time\<close> does not advance. The next successful
  \<open>get_speed_kmh\<close> with a positive speed therefore adds the speed times the whole time
  since the last update before the failure.
\<close>

theorem failed_speed_read_leaves_statistics:
  "statistics (fst (snd (get_speed_kmh (Inl e) m w))) = statistics m
   \<and> snd (snd (get_speed_kmh (Inl e) m w)) = w
   \<and> (let m1 = fst (snd (get_speed_kmh (Inl e) m w));
           (speed, m2, w2) = get_speed_kmh (Inr raw) m1 w'
       in 0 < speed \<and> last_update_time (statistics m) < last_update_time (statistics m2) \<longrightarrow>
            total_distance_km (statistics m2) =
              total_distance_km (statistics m)
              + speed * (last_update_time (statistics m2) - last_update_time (statistics m)) / 3600)"
proof -
  have a: "get_speed_kmh (Inl e) m w =
     (0, m\<lparr>sensor_errors := AList.update ''hall'' True (sensor_errors m)\<rparr>, w)"
    by (simp add: get_speed_kmh_def)
  let ?m1 = "m\<lparr>sensor_errors := AList.update ''hall'' True (sensor_errors m)\<rparr>"
  let ?v = "max 0 (raw + speed_offset m)"
  have v: "fst (get_speed_kmh (Inr raw) ?m1 w') = ?v"
    by (simp add: get_speed_kmh_def split_def Let_def)
  have s: "statistics (fst (snd (get_speed_kmh (Inr raw) ?m1 w'))) =
     fst (update_distance ?v
            (fst (update_speed ?v (statistics m) (snd (time_time w'))))
            (snd (update_speed ?v (statistics m) (snd (time_time w')))))"
    using get_speed_kmh_ok_statistics [of raw ?m1 w'] by simp
  show ?thesis
    unfolding a
    apply (simp only: fst_conv snd_conv Let_def split_def v s)
    using update_distance_total [of ?v "fst (update_speed ?v (statistics m) (snd (time_time w')))"
        "snd (update_speed ?v (statistics m) (snd (time_time w')))"]
      update_speed_keeps [of ?v "statistics m" "snd (time_time w')"]
    by (simp split: if_splits)
qed

theorem failed_speed_read_leaves_statistics_witness:
  "statistics (fst (snd (get_speed_kmh (Inl (Exception ''hall'')) sample_manager sample_world)))
     = statistics sample_manager
   \<and> fst (get_speed_kmh (Inr 36)
           (fst (snd (get_speed_kmh (Inl (Exception ''hall'')) sample_manager sample_world)))
           sample_world) = 36
   \<and> last_update_time (statistics sample_manager) = 1
   \<and> last_update_time (statistics (fst (snd (get_speed_kmh (Inr 36)
           (fst (snd (get_speed_kmh (Inl (Exception ''hall'')) sample_manager sample_world)))
           sample_world)))) = 8
   \<and> total_distance_km (statistics (fst (snd (get_speed_kmh (Inr 36)
           (fst (snd (get_speed_kmh (Inl (Exception ''hall'')) sample_manager sample_world)))
           sample_world)))) = 7 / 100"
  using failed_speed_read_leaves_statistics
    [of "Exception ''hall''" sample_manager sample_world 36 sample_world]
  by (simp add: sample_manager_fields sample_world_fields fresh_tracker_fields
      get_speed_kmh_def update_speed_def update_distance_def save_data_def time_time_def
      disk_ok_def split_def Let_def)

end
